theory Spec2Isabelle
  imports Main
begin

section \<open>JavaScript string and number primitives used by the two scripts\<close>

text \<open>
  Strings are lists of 8-bit characters, read as the code units 0..255 of a JavaScript
  string. The built-ins below follow ECMA-262 on that range.
\<close>

definition js_whitespace :: "char \<Rightarrow> bool" where
  \<comment> \<open>WhiteSpace and LineTerminator code units below 256: TAB, LF, VT, FF, CR, SP, NBSP.\<close>
  "js_whitespace c = (of_char c \<in> {9, 10, 11, 12, 13, 32, 160 :: nat})"

definition trimStart :: "string \<Rightarrow> string" where
  "trimStart s = dropWhile js_whitespace s"

definition trim :: "string \<Rightarrow> string" where
  \<comment> \<open>\<^verbatim>\<open>String.prototype.trim\<close>\<close>
  "trim s = rev (dropWhile js_whitespace (rev (dropWhile js_whitespace s)))"

fun split_on :: "char \<Rightarrow> string \<Rightarrow> string list" where
  \<comment> \<open>\<^verbatim>\<open>s.split(sep)\<close> for a one-character separator: never empty, one part more than separators.\<close>
  "split_on sep [] = [[]]"
| "split_on sep (c # cs) =
     (if c = sep then [] # split_on sep cs
      else (case split_on sep cs of
              [] \<Rightarrow> [[c]]
            | p # ps \<Rightarrow> (c # p) # ps))"

fun join_str :: "string \<Rightarrow> string list \<Rightarrow> string" where
  \<comment> \<open>\<^verbatim>\<open>parts.join(sep)\<close>\<close>
  "join_str sep [] = []"
| "join_str sep [p] = p"
| "join_str sep (p # q # ps) = p @ sep @ join_str sep (q # ps)"

fun startsWith :: "string \<Rightarrow> string \<Rightarrow> bool" where
  "startsWith s [] = True"
| "startsWith [] (p # ps) = False"
| "startsWith (c # cs) (p # ps) = (c = p \<and> startsWith cs ps)"

fun includes_str :: "string \<Rightarrow> string \<Rightarrow> bool" where
  \<comment> \<open>\<^verbatim>\<open>s.includes(sub)\<close>: \<open>sub\<close> occurs in \<open>s\<close> as a contiguous run.\<close>
  "includes_str [] sub = (sub = [])"
| "includes_str (c # cs) sub = (startsWith (c # cs) sub \<or> includes_str cs sub)"

definition is_digit :: "char \<Rightarrow> bool" where
  "is_digit c = (48 \<le> (of_char c :: nat) \<and> (of_char c :: nat) \<le> 57)"

definition digits_value :: "string \<Rightarrow> nat" where
  "digits_value ds = foldl (\<lambda>a c. 10 * a + (of_char c - 48)) 0 ds"

text \<open>
  The result of \<^verbatim>\<open>parseFloat\<close>. \<open>Infinity neg\<close> is \<open>\<plusminus>Infinity\<close>; \<open>Finite neg m e\<close> is
  the decimal \<open>\<plusminus>m\<cdot>10\<^sup>e\<close> read from the text. Which of the three a text gives is exact;
  the rounding of a finite decimal to the nearest double is not modelled.
\<close>

datatype jsnum = NaN | Infinity bool | Finite bool nat int

definition isNaN :: "jsnum \<Rightarrow> bool" where
  "isNaN x = (x = NaN)"

definition is_finite :: "jsnum \<Rightarrow> bool" where
  "is_finite x = (case x of Finite neg m e \<Rightarrow> True | _ \<Rightarrow> False)"

definition overflows :: "nat \<Rightarrow> int \<Rightarrow> bool" where
  \<comment> \<open>\<open>m\<cdot>10\<^sup>e\<close> rounds to an infinite double: it is at least \<open>2\<^sup>1\<^sup>0\<^sup>2\<^sup>4 - 2\<^sup>9\<^sup>7\<^sup>0\<close>.\<close>
  "overflows m e =
     (if 0 \<le> e then 2 ^ 1024 - 2 ^ 970 \<le> m * 10 ^ nat e
      else (2 ^ 1024 - 2 ^ 970) * 10 ^ nat (- e) \<le> m)"

definition exponent_part :: "string \<Rightarrow> int" where
  \<comment> \<open>ExponentPart: \<open>e\<close> or \<open>E\<close>, an optional sign, at least one digit; 0 when there is none.\<close>
  "exponent_part r =
     (case r of
        [] \<Rightarrow> 0
      | c # r1 \<Rightarrow>
          if c = CHR ''e'' \<or> c = CHR ''E'' then
            (case r1 of
               [] \<Rightarrow> 0
             | sg # r2 \<Rightarrow>
                 if sg = CHR ''-'' then - int (digits_value (takeWhile is_digit r2))
                 else if sg = CHR ''+'' then int (digits_value (takeWhile is_digit r2))
                 else int (digits_value (takeWhile is_digit r1)))
          else 0)"

definition str_decimal :: "bool \<Rightarrow> string \<Rightarrow> jsnum" where
  \<comment> \<open>the longest StrUnsignedDecimalLiteral (other than \<open>Infinity\<close>) that starts \<open>u\<close>: digits,
      an optional point and digits, an optional exponent; at least one digit\<close>
  "str_decimal neg u =
     (let ip = takeWhile is_digit u;
          r1 = dropWhile is_digit u;
          fp = (case r1 of [] \<Rightarrow> [] | c # r \<Rightarrow> if c = CHR ''.'' then takeWhile is_digit r else []);
          r2 = (case r1 of [] \<Rightarrow> [] | c # r \<Rightarrow> if c = CHR ''.'' then dropWhile is_digit r else r1)
      in if ip = [] \<and> fp = [] then NaN
         else
           let m = digits_value (ip @ fp);
               e = exponent_part r2 - int (length fp)
           in if overflows m e then Infinity neg else Finite neg m e)"

definition parseFloat :: "string \<Rightarrow> jsnum" where
  \<comment> \<open>ECMA-262 \<^verbatim>\<open>parseFloat\<close>: skip leading white space, then read the longest prefix that
      is a StrDecimalLiteral (an optional sign, then \<open>Infinity\<close> or a decimal); \<open>NaN\<close> when
      there is none.\<close>
  "parseFloat s =
     (let t = trimStart s;
          neg = (t \<noteq> [] \<and> hd t = CHR ''-'');
          u = (if t \<noteq> [] \<and> (hd t = CHR ''-'' \<or> hd t = CHR ''+'') then tl t else t)
      in if startsWith u ''Infinity'' then Infinity neg else str_decimal neg u)"

section \<open>The calculator script\<close>

text \<open>
  The page state the script reads and writes: the two input fields, the Add button, the
  result line, and the log of requests passed to \<^verbatim>\<open>fetch\<close>.
\<close>

datatype add_request = AddRequest jsnum jsnum

record calc_state =
  number1_value :: string
  number2_value :: string
  addButton_disabled :: bool
  addButton_text :: string
  result_text :: string
  result_class :: string
  add_requests :: "add_request list"

datatype field = Number1 | Number2

definition field_value :: "field \<Rightarrow> calc_state \<Rightarrow> string" where
  "field_value f s = (case f of Number1 \<Rightarrow> number1_value s | Number2 \<Rightarrow> number2_value s)"

definition set_field_value :: "field \<Rightarrow> string \<Rightarrow> calc_state \<Rightarrow> calc_state" where
  "set_field_value f v s =
     (case f of Number1 \<Rightarrow> s\<lparr>number1_value := v\<rparr> | Number2 \<Rightarrow> s\<lparr>number2_value := v\<rparr>)"

definition updateButtonState :: "calc_state \<Rightarrow> calc_state" where
  "updateButtonState s =
     (let num1 = parseFloat (number1_value s);
          num2 = parseFloat (number2_value s)
      in if \<not> isNaN num1 \<and> \<not> isNaN num2 \<and> trim (number1_value s) \<noteq> [] \<and> trim (number2_value s) \<noteq> []
         then s\<lparr>addButton_disabled := False\<rparr>
         else s\<lparr>addButton_disabled := True\<rparr>)"

definition numeric_char :: "char \<Rightarrow> bool" where
  \<comment> \<open>the characters kept by \<^verbatim>\<open>replace(/[^0-9.-]/g, '')\<close>\<close>
  "numeric_char c = (is_digit c \<or> c = CHR ''.'' \<or> c = CHR ''-'')"

definition sanitized :: "string \<Rightarrow> string" where
  \<comment> \<open>the text \<^verbatim>\<open>validateInput\<close> writes back into the field holding \<open>v\<close>\<close>
  "sanitized v =
     (let numericValue = filter numeric_char v;
          parts = split_on (CHR ''.'') numericValue
      in if length parts > 2 then hd parts @ ''.'' @ join_str [] (tl parts)
         else numericValue)"

definition validateInput :: "field \<Rightarrow> calc_state \<Rightarrow> calc_state" where
  \<comment> \<open>the \<^verbatim>\<open>input\<close> event on field \<open>target\<close>\<close>
  "validateInput target s =
     updateButtonState (set_field_value target (sanitized (field_value target s)) s)"

definition short_numeric :: "string \<Rightarrow> bool" where
  \<comment> \<open>a text of at most 308 characters, all of them digits, points or minus signs\<close>
  "short_numeric v = (list_all numeric_char v \<and> length v \<le> 308)"

definition input_event :: "field \<Rightarrow> string \<Rightarrow> calc_state \<Rightarrow> calc_state" where
  \<comment> \<open>an edit of field \<open>target\<close>: the browser leaves the text \<open>raw\<close> in the field and
      dispatches \<^verbatim>\<open>input\<close>, whose listener is \<^verbatim>\<open>validateInput\<close> (lines 12-13)\<close>
  "input_event target raw s = validateInput target (set_field_value target raw s)"

text \<open>
  What a call of \<^verbatim>\<open>fetch\<close> followed by \<^verbatim>\<open>response.json()\<close> can give: the promise
  rejects (no answer from the network), or a response arrives with a status and a body.
\<close>

datatype 'b fetch_outcome = NetworkFailure | Response nat 'b

definition response_ok :: "nat \<Rightarrow> bool" where
  \<comment> \<open>\<^verbatim>\<open>response.ok\<close>: the status is in 200..299\<close>
  "response_ok status = (200 \<le> status \<and> status \<le> 299)"

datatype js_error = NetworkError | HttpError nat | SyntaxError | TypeError

text \<open>
  The body of an \<^verbatim>\<open>/add\<close> response: not JSON, the JSON \<^verbatim>\<open>null\<close>, or a value whose
  \<^verbatim>\<open>result\<close> property reads, inside a template literal, as the given text.
\<close>

datatype add_body = AddMalformed | AddNull | AddObject string

definition showResult :: "string \<Rightarrow> calc_state \<Rightarrow> calc_state" where
  "showResult r s = s\<lparr>result_text := ''Result: '' @ r, result_class := ''result show''\<rparr>"

definition showError_calc :: "string \<Rightarrow> calc_state \<Rightarrow> calc_state" where
  \<comment> \<open>\<^verbatim>\<open>showError\<close> of the calculator script\<close>
  "showError_calc message s = s\<lparr>result_text := message, result_class := ''result show error''\<rparr>"

definition handleAddition_pending :: "jsnum \<Rightarrow> jsnum \<Rightarrow> calc_state \<Rightarrow> calc_state" where
  \<comment> \<open>the state in which \<^verbatim>\<open>handleAddition\<close> awaits the answer: button disabled, label
      changed, then the request handed to \<^verbatim>\<open>fetch\<close>\<close>
  "handleAddition_pending num1 num2 s =
     (let s1 = s\<lparr>addButton_disabled := True, addButton_text := ''Calculating...''\<rparr>
      in s1\<lparr>add_requests := add_requests s1 @ [AddRequest num1 num2]\<rparr>)"

definition handleAddition_try :: "add_body fetch_outcome \<Rightarrow> calc_state \<Rightarrow> js_error + calc_state" where
  \<comment> \<open>the \<^verbatim>\<open>try\<close> block after the request is sent; nothing is written before a throw\<close>
  "handleAddition_try outcome s =
     (case outcome of
        NetworkFailure \<Rightarrow> Inl NetworkError
      | Response status body \<Rightarrow>
          if \<not> response_ok status then Inl (HttpError status)
          else (case body of
                  AddMalformed \<Rightarrow> Inl SyntaxError
                | AddNull \<Rightarrow> Inl TypeError
                | AddObject r \<Rightarrow> Inr (showResult r s)))"

definition handleAddition_settle :: "add_body fetch_outcome \<Rightarrow> calc_state \<Rightarrow> calc_state" where
  \<comment> \<open>\<^verbatim>\<open>try\<close>, \<^verbatim>\<open>catch\<close> and \<^verbatim>\<open>finally\<close> once the request has settled\<close>
  "handleAddition_settle outcome s =
     (let s1 = (case handleAddition_try outcome s of
                  Inl err \<Rightarrow> showError_calc ''Failed to calculate. Please check if the server is running.'' s
                | Inr s' \<Rightarrow> s')
      in updateButtonState (s1\<lparr>addButton_disabled := False, addButton_text := ''Add''\<rparr>))"

definition handleAddition :: "add_body fetch_outcome \<Rightarrow> calc_state \<Rightarrow> calc_state" where
  "handleAddition outcome s =
     (let num1 = parseFloat (number1_value s);
          num2 = parseFloat (number2_value s)
      in if isNaN num1 \<or> isNaN num2 then showError_calc ''Please enter valid numbers'' s
         else handleAddition_settle outcome (handleAddition_pending num1 num2 s))"

definition handleKeyPress :: "string \<Rightarrow> add_body fetch_outcome \<Rightarrow> calc_state \<Rightarrow> calc_state" where
  "handleKeyPress key outcome s = (if key = ''Enter'' then handleAddition outcome s else s)"

section \<open>The resume script: payload\<close>

text \<open>
  A property that should hold a string may be missing (\<open>Undefined\<close>), \<^verbatim>\<open>null\<close> or a string.
  A property that should hold an array is \<open>None\<close> when it is missing or \<^verbatim>\<open>null\<close>: reading
  \<^verbatim>\<open>.length\<close> of it throws a TypeError.
\<close>

datatype jstr = Undefined | Null | Str string

fun truthy :: "jstr \<Rightarrow> bool" where
  "truthy (Str s) = (s \<noteq> [])"
| "truthy v = False"

fun to_text :: "jstr \<Rightarrow> string" where
  \<comment> \<open>the text a template literal substitutes\<close>
  "to_text (Str s) = s"
| "to_text Null = ''null''"
| "to_text Undefined = ''undefined''"

record contact_entry =
  contact_value :: jstr

record education_entry =
  edu_institution :: jstr
  edu_degree :: jstr
  edu_field_of_study :: jstr
  edu_start_date :: jstr
  edu_end_date :: jstr

record work_entry =
  work_company :: jstr
  work_position :: jstr
  work_start_date :: jstr
  work_end_date :: jstr
  work_description :: jstr

record skill_entry =
  skill_name :: jstr

record project_entry =
  project_name :: jstr
  project_description :: jstr
  project_technologies :: "string list option"

record certification_entry =
  cert_name :: jstr
  cert_issuer :: jstr

record language_entry =
  lang_name :: jstr

record resume_data =
  full_name :: jstr
  contact_info :: "contact_entry list option"
  summary :: jstr
  education :: "education_entry list option"
  work_experience :: "work_entry list option"
  skills :: "skill_entry list option"
  projects :: "project_entry list option"
  certifications :: "certification_entry list option"
  languages :: "language_entry list option"

section \<open>The resume script: building the markup\<close>

text \<open>
  \<^verbatim>\<open>displayResumeData\<close> appends to a local string \<^verbatim>\<open>html\<close>, one block of the source after
  the other, and writes it to the page at the end. Each block below is the text one block
  of the source appends, or the TypeError it throws when it reads the length of a missing
  array. The line \<^verbatim>\<open>if (x.f) html += `<div><span class="data-label">L:</span> ${x.f}</div>`\<close>,
  which the source repeats for every optional field, is \<open>labelled_line\<close>.
\<close>

definition section_open :: string where
  \<open>section_open = ''<div class="data-section">''\<close>

definition section_title :: "string \<Rightarrow> string" where
  \<open>section_title t = ''<div class="section-title">'' @ t @ ''</div>''\<close>

definition item_open :: string where
  \<open>item_open = ''<div class="data-item">''\<close>

definition labelled_line :: "string \<Rightarrow> jstr \<Rightarrow> string" where
  \<open>labelled_line label v =
     (if truthy v then ''<div><span class="data-label">'' @ label @ '':</span> '' @ to_text v @ ''</div>''
      else [])\<close>

definition dates_line :: "jstr \<Rightarrow> jstr \<Rightarrow> string" where
  \<comment> \<open>lines 184-187 and 205-208 of the source, the same text for both kinds of entry\<close>
  \<open>dates_line start_date end_date =
     (if truthy start_date \<or> truthy end_date then
        (let dates = join_str '' - '' (map to_text (filter truthy [start_date, end_date]))
         in ''<div><span class="data-label">Dates:</span> '' @ dates @ ''</div>'')
      else [])\<close>

definition name_item :: "jstr \<Rightarrow> string" where
  \<comment> \<open>the template literal of lines 142-145, with its line breaks and indentation\<close>
  \<open>name_item n =
     ''<div class="data-item">'' @ [CHR 0x0A] @
     ''                <span class="data-label">Name:</span>'' @ [CHR 0x0A] @
     ''                <span class="data-value">'' @ to_text n @ ''</span>'' @ [CHR 0x0A] @
     ''            </div>''\<close>

definition contact_item :: "contact_entry list \<Rightarrow> string" where
  \<open>contact_item cs =
     ''<div class="data-item">'' @ ''<span class="data-label">Contact:</span>'' @
     ''<div class="contact-info">'' @
     concat (map (\<lambda>contact. ''<span class="contact-item">'' @ to_text (contact_value contact) @ ''</span>'') cs) @
     ''</div></div>''\<close>

definition personal_block :: "resume_data \<Rightarrow> js_error + string" where
  \<comment> \<open>When the name is truthy the condition of line 137 does not read \<^verbatim>\<open>contact_info\<close>, but
      line 148 does, before anything is written: a missing array throws either way.\<close>
  \<open>personal_block d =
     (case contact_info d of
        None \<Rightarrow> Inl TypeError
      | Some cs \<Rightarrow>
          Inr (if truthy (full_name d) \<or> cs \<noteq> [] then
                 section_open @ section_title ''Personal Information'' @
                 (if truthy (full_name d) then name_item (full_name d) else []) @
                 (if cs \<noteq> [] then contact_item cs else []) @
                 ''</div>''
               else []))\<close>

definition summary_block :: "resume_data \<Rightarrow> js_error + string" where
  \<open>summary_block d =
     Inr (if truthy (summary d) then
            section_open @ section_title ''Summary'' @
            item_open @ to_text (summary d) @ ''</div>'' @ ''</div>''
          else [])\<close>

definition education_item :: "education_entry \<Rightarrow> string" where
  \<open>education_item edu =
     item_open @
     labelled_line ''Institution'' (edu_institution edu) @
     labelled_line ''Degree'' (edu_degree edu) @
     labelled_line ''Field'' (edu_field_of_study edu) @
     dates_line (edu_start_date edu) (edu_end_date edu) @
     ''</div>''\<close>

definition education_block :: "resume_data \<Rightarrow> js_error + string" where
  \<open>education_block d =
     (case education d of
        None \<Rightarrow> Inl TypeError
      | Some es \<Rightarrow>
          Inr (if es \<noteq> [] then
                 section_open @ section_title ''Education'' @
                 concat (map education_item es) @ ''</div>''
               else []))\<close>

definition work_item :: "work_entry \<Rightarrow> string" where
  \<open>work_item work =
     item_open @
     labelled_line ''Company'' (work_company work) @
     labelled_line ''Position'' (work_position work) @
     dates_line (work_start_date work) (work_end_date work) @
     labelled_line ''Description'' (work_description work) @
     ''</div>''\<close>

definition work_block :: "resume_data \<Rightarrow> js_error + string" where
  \<open>work_block d =
     (case work_experience d of
        None \<Rightarrow> Inl TypeError
      | Some ws \<Rightarrow>
          Inr (if ws \<noteq> [] then
                 section_open @ section_title ''Work Experience'' @
                 concat (map work_item ws) @ ''</div>''
               else []))\<close>

definition skills_block :: "resume_data \<Rightarrow> js_error + string" where
  \<open>skills_block d =
     (case skills d of
        None \<Rightarrow> Inl TypeError
      | Some ss \<Rightarrow>
          Inr (if ss \<noteq> [] then
                 section_open @ section_title ''Skills'' @
                 item_open @ ''<div class="skills-list">'' @
                 concat (map (\<lambda>skill. ''<span class="skill-tag">'' @ to_text (skill_name skill) @ ''</span>'') ss) @
                 ''</div></div></div>''
               else []))\<close>

fun run_blocks :: "string \<Rightarrow> (js_error + string) list \<Rightarrow> js_error + string" where
  \<comment> \<open>\<^verbatim>\<open>html += block\<close> for each block in turn; the first throw ends the function\<close>
  "run_blocks html [] = Inr html"
| "run_blocks html (b # bs) =
     (case b of Inl err \<Rightarrow> Inl err | Inr h \<Rightarrow> run_blocks (html @ h) bs)"

definition project_item :: "project_entry \<Rightarrow> js_error + string" where
  \<open>project_item project =
     (case project_technologies project of
        None \<Rightarrow> Inl TypeError
      | Some ts \<Rightarrow>
          Inr (item_open @
               labelled_line ''Project'' (project_name project) @
               labelled_line ''Description'' (project_description project) @
               (if ts \<noteq> [] then
                  ''<div><span class="data-label">Technologies:</span> '' @ join_str '', '' ts @ ''</div>''
                else []) @
               ''</div>''))\<close>

definition projects_block :: "resume_data \<Rightarrow> js_error + string" where
  \<open>projects_block d =
     (case projects d of
        None \<Rightarrow> Inl TypeError
      | Some ps \<Rightarrow>
          if ps \<noteq> [] then
            (case run_blocks (section_open @ section_title ''Projects'') (map project_item ps) of
               Inl err \<Rightarrow> Inl err
             | Inr h \<Rightarrow> Inr (h @ ''</div>''))
          else Inr [])\<close>

definition certification_item :: "certification_entry \<Rightarrow> string" where
  \<open>certification_item cert =
     item_open @
     labelled_line ''Certification'' (cert_name cert) @
     labelled_line ''Issuer'' (cert_issuer cert) @
     ''</div>''\<close>

definition certifications_block :: "resume_data \<Rightarrow> js_error + string" where
  \<open>certifications_block d =
     (case certifications d of
        None \<Rightarrow> Inl TypeError
      | Some cs \<Rightarrow>
          Inr (if cs \<noteq> [] then
                 section_open @ section_title ''Certifications'' @
                 concat (map certification_item cs) @ ''</div>''
               else []))\<close>

definition languages_block :: "resume_data \<Rightarrow> js_error + string" where
  \<open>languages_block d =
     (case languages d of
        None \<Rightarrow> Inl TypeError
      | Some ls \<Rightarrow>
          Inr (if ls \<noteq> [] then
                 section_open @ section_title ''Languages'' @ item_open @
                 concat (map (\<lambda>lang. ''<span class="skill-tag">'' @ to_text (lang_name lang) @ ''</span>'') ls) @
                 ''</div></div>''
               else []))\<close>

definition build_html :: "resume_data \<Rightarrow> js_error + string" where
  \<comment> \<open>lines 134-277: the value of \<^verbatim>\<open>html\<close> when line 279 is reached\<close>
  "build_html d =
     run_blocks []
       [personal_block d, summary_block d, education_block d, work_block d,
        skills_block d, projects_block d, certifications_block d, languages_block d]"

section \<open>The resume script: page state and handlers\<close>

record js_file =
  file_name :: string
  file_size :: nat
  file_type :: string

datatype parse_request = ParseRequest js_file
  \<comment> \<open>POST to \<^verbatim>\<open>/parse-resume\<close> with the file as the form field \<^verbatim>\<open>file\<close>\<close>

datatype size_text = OtherText string | FormatFileSize nat
  \<comment> \<open>\<open>FormatFileSize n\<close> stands for the text \<^verbatim>\<open>formatFileSize(n)\<close> returns, which the source
      computes in floating point\<close>

record ui_state =
  selectedFile :: "js_file option"
  fileInput_value :: string
  uploadArea_dragover :: bool
  uploadArea_display :: string
  fileInfo_display :: string
  fileName_text :: string
  fileSize_text :: size_text
  parseButton_disabled :: bool
  loading_display :: string
  resultSection_display :: string
  resumeData_innerHTML :: string
  error_display :: string
  errorMessage_text :: string
  parse_requests :: "parse_request list"

definition showLoading :: "ui_state \<Rightarrow> ui_state" where
  "showLoading s = s\<lparr>loading_display := ''block'', parseButton_disabled := True\<rparr>"

definition hideLoading :: "ui_state \<Rightarrow> ui_state" where
  "hideLoading s = s\<lparr>loading_display := ''none'', parseButton_disabled := False\<rparr>"

definition showError :: "string \<Rightarrow> ui_state \<Rightarrow> ui_state" where
  "showError message s = s\<lparr>errorMessage_text := message, error_display := ''block''\<rparr>"

definition hideError :: "ui_state \<Rightarrow> ui_state" where
  "hideError s = s\<lparr>error_display := ''none''\<rparr>"

definition hideResult :: "ui_state \<Rightarrow> ui_state" where
  "hideResult s = s\<lparr>resultSection_display := ''none''\<rparr>"

definition maxSize :: nat where
  "maxSize = 10 * 1024 * 1024"

definition processFile :: "js_file \<Rightarrow> ui_state \<Rightarrow> ui_state" where
  "processFile f s =
     (if \<not> includes_str (file_type f) ''pdf'' then showError ''Please select a PDF file'' s
      else if file_size f > maxSize then showError ''File size must be less than 10MB'' s
      else
        hideResult (hideError
          (s\<lparr>selectedFile := Some f,
             fileName_text := file_name f,
             fileSize_text := FormatFileSize (file_size f),
             uploadArea_display := ''none'',
             fileInfo_display := ''flex''\<rparr>)))"

definition handleFileSelect :: "js_file option \<Rightarrow> ui_state \<Rightarrow> ui_state" where
  \<comment> \<open>the argument is \<^verbatim>\<open>event.target.files[0]\<close>\<close>
  "handleFileSelect first s = (case first of None \<Rightarrow> s | Some f \<Rightarrow> processFile f s)"

definition handleDragOver :: "ui_state \<Rightarrow> ui_state" where
  "handleDragOver s = s\<lparr>uploadArea_dragover := True\<rparr>"

definition handleDragLeave :: "ui_state \<Rightarrow> ui_state" where
  "handleDragLeave s = s\<lparr>uploadArea_dragover := False\<rparr>"

definition handleDrop :: "js_file list \<Rightarrow> ui_state \<Rightarrow> ui_state" where
  \<comment> \<open>the argument is \<^verbatim>\<open>event.dataTransfer.files\<close>\<close>
  "handleDrop files s =
     (let s1 = s\<lparr>uploadArea_dragover := False\<rparr>
      in case files of [] \<Rightarrow> s1 | f # rest \<Rightarrow> processFile f s1)"

definition resetUpload :: "ui_state \<Rightarrow> ui_state" where
  "resetUpload s =
     hideResult (hideError
       (s\<lparr>selectedFile := None,
          fileInput_value := [],
          uploadArea_display := ''block'',
          fileInfo_display := ''none''\<rparr>))"

definition displayResumeData :: "resume_data option \<Rightarrow> ui_state \<Rightarrow> js_error + ui_state" where
  \<comment> \<open>The argument is \<open>None\<close> when the caller passes \<^verbatim>\<open>undefined\<close> or \<^verbatim>\<open>null\<close>: line 137 then
      throws. The page is written only at lines 279-280, after every possible throw.\<close>
  "displayResumeData data s =
     (case data of
        None \<Rightarrow> Inl TypeError
      | Some d \<Rightarrow>
          (case build_html d of
             Inl err \<Rightarrow> Inl err
           | Inr html \<Rightarrow> Inr (s\<lparr>resumeData_innerHTML := html, resultSection_display := ''block''\<rparr>)))"

text \<open>
  The body of a \<^verbatim>\<open>/parse-resume\<close> response: not JSON, the JSON \<^verbatim>\<open>null\<close>, or an object
  with its \<^verbatim>\<open>success\<close>, \<^verbatim>\<open>message\<close> and \<^verbatim>\<open>resume_data\<close> properties.
\<close>

datatype parse_body = ParseMalformed | ParseNull | ParseObject bool jstr "resume_data option"

definition handleParse_pending :: "js_file \<Rightarrow> ui_state \<Rightarrow> ui_state" where
  \<comment> \<open>the state in which \<^verbatim>\<open>handleParse\<close> awaits the answer: loading shown, button disabled,
      then the request handed to \<^verbatim>\<open>fetch\<close>\<close>
  "handleParse_pending f s =
     (let s1 = hideResult (hideError (showLoading s))
      in s1\<lparr>parse_requests := parse_requests s1 @ [ParseRequest f]\<rparr>)"

definition handleParse_try :: "parse_body fetch_outcome \<Rightarrow> ui_state \<Rightarrow> js_error + ui_state" where
  \<comment> \<open>the \<^verbatim>\<open>try\<close> block after the request is sent; nothing is written before a throw\<close>
  "handleParse_try outcome s =
     (case outcome of
        NetworkFailure \<Rightarrow> Inl NetworkError
      | Response status body \<Rightarrow>
          if \<not> response_ok status then Inl (HttpError status)
          else (case body of
                  ParseMalformed \<Rightarrow> Inl SyntaxError
                | ParseNull \<Rightarrow> Inl TypeError
                | ParseObject success message data \<Rightarrow>
                    if success then displayResumeData data s
                    else Inr (showError (if truthy message then to_text message
                                         else ''Failed to parse resume'') s)))"

definition handleParse_settle :: "parse_body fetch_outcome \<Rightarrow> ui_state \<Rightarrow> ui_state" where
  \<comment> \<open>\<^verbatim>\<open>try\<close>, \<^verbatim>\<open>catch\<close> and \<^verbatim>\<open>finally\<close> once the request has settled\<close>
  "handleParse_settle outcome s =
     hideLoading
       (case handleParse_try outcome s of
          Inl err \<Rightarrow> showError ''Failed to parse resume. Please check if the server is running.'' s
        | Inr s' \<Rightarrow> s')"

definition handleParse :: "parse_body fetch_outcome \<Rightarrow> ui_state \<Rightarrow> ui_state" where
  "handleParse outcome s =
     (case selectedFile s of
        None \<Rightarrow> showError ''Please select a file first'' s
      | Some f \<Rightarrow> handleParse_settle outcome (handleParse_pending f s))"

text \<open>
  The operations of the script as events. A click on the parse button and the arrival of
  its answer are two events, so that other events may come between them.
\<close>

datatype event =
    FileSelect "js_file option"
  | DragOver
  | DragLeave
  | Drop "js_file list"
  | ParseClick
  | ParseSettled "parse_body fetch_outcome"
  | Reset

fun step :: "event \<Rightarrow> ui_state \<Rightarrow> ui_state" where
  "step (FileSelect first) s = handleFileSelect first s"
| "step DragOver s = handleDragOver s"
| "step DragLeave s = handleDragLeave s"
| "step (Drop files) s = handleDrop files s"
| "step ParseClick s =
     (case selectedFile s of
        None \<Rightarrow> showError ''Please select a file first'' s
      | Some f \<Rightarrow> handleParse_pending f s)"
| "step (ParseSettled outcome) s = handleParse_settle outcome s"
| "step Reset s = resetUpload s"

definition run :: "event list \<Rightarrow> ui_state \<Rightarrow> ui_state" where
  "run evs s = foldl (\<lambda>st ev. step ev st) s evs"

definition file_ok :: "js_file option \<Rightarrow> bool" where
  \<comment> \<open>the invariant of the selected file\<close>
  "file_ok sel =
     (case sel of
        None \<Rightarrow> True
      | Some f \<Rightarrow> includes_str (file_type f) ''pdf'' \<and> file_size f \<le> maxSize)"

section \<open>The specification's reading of the renderer\<close>

text \<open>
  The specification describes the output as one labelled section per non-empty category,
  in a fixed order. The definitions of this section follow those words; the theorems
  compare them with \<open>build_html\<close>.
\<close>

datatype category =
  Personal | Summary | Education | Work | Skills | Projects | Certifications | Languages

definition category_order :: "category list" where
  "category_order = [Personal, Summary, Education, Work, Skills, Projects, Certifications, Languages]"

fun category_title :: "category \<Rightarrow> string" where
  "category_title Personal = ''Personal Information''"
| "category_title Summary = ''Summary''"
| "category_title Education = ''Education''"
| "category_title Work = ''Work Experience''"
| "category_title Skills = ''Skills''"
| "category_title Projects = ''Projects''"
| "category_title Certifications = ''Certifications''"
| "category_title Languages = ''Languages''"

definition entries :: "'a list option \<Rightarrow> 'a list" where
  "entries xs = (case xs of None \<Rightarrow> [] | Some l \<Rightarrow> l)"

fun category_nonempty :: "resume_data \<Rightarrow> category \<Rightarrow> bool" where
  "category_nonempty d Personal = (truthy (full_name d) \<or> entries (contact_info d) \<noteq> [])"
| "category_nonempty d Summary = truthy (summary d)"
| "category_nonempty d Education = (entries (education d) \<noteq> [])"
| "category_nonempty d Work = (entries (work_experience d) \<noteq> [])"
| "category_nonempty d Skills = (entries (skills d) \<noteq> [])"
| "category_nonempty d Projects = (entries (projects d) \<noteq> [])"
| "category_nonempty d Certifications = (entries (certifications d) \<noteq> [])"
| "category_nonempty d Languages = (entries (languages d) \<noteq> [])"

definition project_item_text :: "project_entry \<Rightarrow> string" where
  "project_item_text project = (case project_item project of Inl err \<Rightarrow> [] | Inr h \<Rightarrow> h)"

fun category_body :: "resume_data \<Rightarrow> category \<Rightarrow> string" where
  \<open>category_body d Personal =
     (if truthy (full_name d) then name_item (full_name d) else []) @
     (if entries (contact_info d) \<noteq> [] then contact_item (entries (contact_info d)) else [])\<close>
| \<open>category_body d Summary = item_open @ to_text (summary d) @ ''</div>''\<close>
| \<open>category_body d Education = concat (map education_item (entries (education d)))\<close>
| \<open>category_body d Work = concat (map work_item (entries (work_experience d)))\<close>
| \<open>category_body d Skills =
     item_open @ ''<div class="skills-list">'' @
     concat (map (\<lambda>skill. ''<span class="skill-tag">'' @ to_text (skill_name skill) @ ''</span>'')
               (entries (skills d))) @
     ''</div></div>''\<close>
| \<open>category_body d Projects = concat (map project_item_text (entries (projects d)))\<close>
| \<open>category_body d Certifications = concat (map certification_item (entries (certifications d)))\<close>
| \<open>category_body d Languages =
     item_open @
     concat (map (\<lambda>lang. ''<span class="skill-tag">'' @ to_text (lang_name lang) @ ''</span>'')
               (entries (languages d))) @
     ''</div>''\<close>

definition section_html :: "resume_data \<Rightarrow> category \<Rightarrow> string" where
  \<comment> \<open>a labelled section: the opening tag, the title, the body, the closing tag\<close>
  \<open>section_html d c =
     section_open @ section_title (category_title c) @ category_body d c @ ''</div>''\<close>

definition sections_html :: "resume_data \<Rightarrow> string" where
  "sections_html d = concat (map (section_html d) (filter (category_nonempty d) category_order))"

definition arrays_present :: "resume_data \<Rightarrow> bool" where
  \<comment> \<open>every array the renderer reads the length of is there\<close>
  "arrays_present d =
     (contact_info d \<noteq> None \<and> education d \<noteq> None \<and> work_experience d \<noteq> None \<and>
      skills d \<noteq> None \<and> projects d \<noteq> None \<and> certifications d \<noteq> None \<and>
      languages d \<noteq> None \<and>
      list_all (\<lambda>project. project_technologies project \<noteq> None) (entries (projects d)))"

definition date_range_line :: "jstr \<Rightarrow> jstr \<Rightarrow> string" where
  \<comment> \<open>the date line as the specification words it: both sides joined with \<open>" - "\<close>, an
      absent side left out, no line when both are absent\<close>
  \<open>date_range_line start_date end_date =
     (if truthy start_date \<and> truthy end_date then
        ''<div><span class="data-label">Dates:</span> '' @ to_text start_date @ '' - '' @
        to_text end_date @ ''</div>''
      else if truthy start_date then
        ''<div><span class="data-label">Dates:</span> '' @ to_text start_date @ ''</div>''
      else if truthy end_date then
        ''<div><span class="data-label">Dates:</span> '' @ to_text end_date @ ''</div>''
      else [])\<close>

section \<open>Example inputs\<close>

definition calc_empty :: calc_state where
  \<comment> \<open>a calculator page with nothing typed\<close>
  "calc_empty =
     \<lparr>number1_value = [], number2_value = [], addButton_disabled = True,
      addButton_text = ''Add'', result_text = [], result_class = ''result'',
      add_requests = []\<rparr>"

definition huge_number :: string where
  \<comment> \<open>the digit 1 followed by 309 zeros\<close>
  "huge_number = CHR ''1'' # replicate 309 (CHR ''0'')"

definition ui_empty :: ui_state where
  \<comment> \<open>a resume page with no file selected, as line 18 leaves it\<close>
  "ui_empty =
     \<lparr>selectedFile = None, fileInput_value = [], uploadArea_dragover = False,
      uploadArea_display = ''block'', fileInfo_display = ''none'', fileName_text = [],
      fileSize_text = OtherText [], parseButton_disabled = False, loading_display = ''none'',
      resultSection_display = ''none'', resumeData_innerHTML = [], error_display = ''none'',
      errorMessage_text = [], parse_requests = []\<rparr>"

definition cv_pdf :: js_file where
  "cv_pdf = \<lparr>file_name = ''cv.pdf'', file_size = 2048, file_type = ''application/pdf''\<rparr>"

definition big_png :: js_file where
  \<comment> \<open>an image of 20 MiB\<close>
  "big_png = \<lparr>file_name = ''scan.png'', file_size = 20971520, file_type = ''image/png''\<rparr>"

definition big_pdf :: js_file where
  \<comment> \<open>a PDF of 20 MiB\<close>
  "big_pdf = \<lparr>file_name = ''book.pdf'', file_size = 20971520, file_type = ''application/pdf''\<rparr>"

definition no_entries :: resume_data where
  \<comment> \<open>a payload with every array present and empty\<close>
  "no_entries =
     \<lparr>full_name = Undefined, contact_info = Some [], summary = Undefined, education = Some [],
      work_experience = Some [], skills = Some [], projects = Some [], certifications = Some [],
      languages = Some []\<rparr>"

definition acme_payload :: resume_data where
  \<comment> \<open>the example of the specification: no education, one job at Acme as Eng\<close>
  "acme_payload =
     no_entries\<lparr>work_experience :=
       Some [\<lparr>work_company = Str ''Acme'', work_position = Str ''Eng'', work_start_date = Undefined,
              work_end_date = Undefined, work_description = Undefined\<rparr>]\<rparr>"

definition missing_education_payload :: resume_data where
  \<comment> \<open>a payload with a name and no \<^verbatim>\<open>education\<close> property\<close>
  "missing_education_payload = no_entries\<lparr>full_name := Str ''Ann'', education := None\<rparr>"

section \<open>Sanitising a numeric field\<close>

lemma split_on_not_Nil: "split_on sep s \<noteq> []"
  by (induction s) (auto split: list.splits)

lemma join_str_empty: "join_str [] ps = concat ps"
  by (induction "[] :: string" ps rule: join_str.induct) auto

lemma length_split_on: "length (split_on sep s) = Suc (count_list s sep)"
  by (induction s) (auto split: list.splits simp: split_on_not_Nil)

lemma hd_split_on: "hd (split_on sep s) = takeWhile (\<lambda>c. c \<noteq> sep) s"
  by (induction s) (auto split: list.splits simp: split_on_not_Nil)

lemma concat_split_on: "concat (split_on sep s) = filter (\<lambda>c. c \<noteq> sep) s"
  by (induction s) (auto split: list.splits)

lemma concat_tl_split_on:
  "concat (tl (split_on sep s)) = filter (\<lambda>c. c \<noteq> sep) (dropWhile (\<lambda>c. c \<noteq> sep) s)"
proof (induction s)
  case Nil
  show ?case by simp
next
  case (Cons c cs)
  show ?case
  proof (cases "c = sep")
    case True
    then show ?thesis by (simp add: concat_split_on)
  next
    case False
    with Cons show ?thesis by (auto split: list.splits)
  qed
qed

lemma sanitized_eq:
  "sanitized v =
     (let n = filter numeric_char v
      in if 2 \<le> count_list n (CHR ''.'')
         then takeWhile (\<lambda>c. c \<noteq> CHR ''.'') n @ ''.'' @
              filter (\<lambda>c. c \<noteq> CHR ''.'') (dropWhile (\<lambda>c. c \<noteq> CHR ''.'') n)
         else n)"
  by (simp add: sanitized_def Let_def length_split_on hd_split_on concat_tl_split_on join_str_empty)

lemma count_takeWhile_neq: "count_list (takeWhile (\<lambda>c. c \<noteq> x) xs) x = 0"
  by (auto simp: count_list_0_iff dest: set_takeWhileD)

lemma count_filter_neq: "count_list (filter (\<lambda>c. c \<noteq> x) xs) x = 0"
  by (simp add: count_list_0_iff)

lemma sanitized_dots: "count_list (sanitized v) (CHR ''.'') \<le> 1"
  by (simp add: sanitized_eq Let_def count_takeWhile_neq count_filter_neq)

lemma sanitized_chars: "c \<in> set (sanitized v) \<Longrightarrow> numeric_char c"
  by (auto simp: sanitized_eq Let_def numeric_char_def dest: set_takeWhileD set_dropWhileD
           split: if_splits)

lemma field_value_input_event:
  "field_value target (input_event target raw s) = sanitized raw"
  by (cases target)
     (simp_all add: input_event_def validateInput_def updateButtonState_def field_value_def
                    set_field_value_def Let_def)

text \<open>
  C2 (as amended). An edit of a numeric field leaves in it the text \<open>sanitized raw\<close>: the
  characters of \<open>raw\<close> outside \<open>[0-9.-]\<close> are dropped first, and when two or more decimal
  points remain, the text up to the first point, one point, and the rest without its
  points are kept. The result has only digits, points and minus signs, and at most one
  point. The number and the places of the minus signs are not restricted.
\<close>

theorem validateInput_sanitizes:
  "field_value target (input_event target raw s) = sanitized raw \<and>
   sanitized raw =
     (let n = filter numeric_char raw
      in if 2 \<le> count_list n (CHR ''.'')
         then takeWhile (\<lambda>c. c \<noteq> CHR ''.'') n @ ''.'' @
              filter (\<lambda>c. c \<noteq> CHR ''.'') (dropWhile (\<lambda>c. c \<noteq> CHR ''.'') n)
         else n) \<and>
   (\<forall>c \<in> set (sanitized raw). is_digit c \<or> c = CHR ''.'' \<or> c = CHR ''-'') \<and>
   count_list (sanitized raw) (CHR ''.'') \<le> 1"
proof -
  have "\<forall>c \<in> set (sanitized raw). is_digit c \<or> c = CHR ''.'' \<or> c = CHR ''-''"
    using sanitized_chars [of _ raw] by (simp add: numeric_char_def)
  then show ?thesis
    using field_value_input_event [of target raw s] sanitized_eq [of raw] sanitized_dots [of raw]
    by blast
qed

theorem validateInput_sanitizes_witness:
  "field_value Number1 (input_event Number1 ''-1.2x.3 4.5'' calc_empty) = ''-1.2345'' \<and>
   count_list (sanitized ''-1.2x.3 4.5'') (CHR ''.'') \<le> 1"
  using validateInput_sanitizes [of Number1 "''-1.2x.3 4.5''" calc_empty]
  by (simp add: sanitized_def numeric_char_def is_digit_def)

theorem sanitized_minus_counterexample:
  "field_value Number1 (input_event Number1 ''1-2-3'' calc_empty) = ''1-2-3'' \<and>
   count_list (sanitized ''1-2-3'') (CHR ''-'') = 2 \<and>
   hd (sanitized ''1-2-3'') \<noteq> CHR ''-''"
  by (simp add: field_value_input_event sanitized_def numeric_char_def is_digit_def)

section \<open>Parsing a field and the state of the Add button\<close>

lemma trim_Nil_iff: "trim v = [] \<longleftrightarrow> trimStart v = []"
proof
  assume "trimStart v = []"
  then show "trim v = []"
    by (auto simp: trim_def trimStart_def dest: set_dropWhileD)
next
  assume a: "trim v = []"
  show "trimStart v = []"
  proof (rule ccontr)
    assume n: "trimStart v \<noteq> []"
    then have "\<not> js_whitespace (hd (dropWhile js_whitespace v))"
      unfolding trimStart_def by (rule hd_dropWhile)
    moreover have "hd (dropWhile js_whitespace v) \<in> set (dropWhile js_whitespace v)"
      using n by (simp add: trimStart_def)
    moreover have "\<forall>x \<in> set (dropWhile js_whitespace v). js_whitespace x"
      using a by (simp add: trim_def dropWhile_eq_Nil_conv)
    ultimately show False by blast
  qed
qed

lemma parseFloat_blank: "trimStart v = [] \<Longrightarrow> parseFloat v = NaN"
  by (simp add: parseFloat_def str_decimal_def)

lemma parseFloat_trim: "parseFloat v \<noteq> NaN \<Longrightarrow> trim v \<noteq> []"
  using parseFloat_blank trim_Nil_iff by blast

lemma digits_value_snoc:
  "digits_value (ds @ [c]) = 10 * digits_value ds + (of_char c - 48)"
  by (simp add: digits_value_def)

lemma digits_value_bound:
  "\<forall>c \<in> set ds. is_digit c \<Longrightarrow> digits_value ds < 10 ^ length ds"
proof (induction ds rule: rev_induct)
  case Nil
  show ?case by (simp add: digits_value_def)
next
  case (snoc c ds)
  then have "digits_value ds < 10 ^ length ds" by simp
  moreover have "(of_char c :: nat) - 48 \<le> 9"
    using snoc.prems by (auto simp: is_digit_def)
  ultimately show ?case
    by (simp add: digits_value_snoc)
qed

lemma below_threshold: "(10::nat) ^ 308 < 2 ^ 1024 - 2 ^ 970"
  by simp

lemma above_threshold: "(2::nat) ^ 1024 - 2 ^ 970 \<le> 10 ^ 309"
  by simp

lemma overflows_small:
  assumes "m < 10 ^ 308"
  shows "\<not> overflows m (- int k)"
proof -
  define T where "T = (2::nat) ^ 1024 - 2 ^ 970"
  have T: "10 ^ 308 < T" unfolding T_def by (rule below_threshold)
  have "T \<le> T * 10 ^ k" by simp
  with assms T have a: "\<not> T * 10 ^ k \<le> m" and b: "\<not> T \<le> m" by linarith+
  show ?thesis
    unfolding overflows_def T_def [symmetric] using a b by (cases "k = 0") simp_all
qed

lemma numeric_char_not_exponent: "numeric_char c \<Longrightarrow> c \<noteq> CHR ''e'' \<and> c \<noteq> CHR ''E'' \<and> c \<noteq> CHR ''I''"
  by (auto simp: numeric_char_def is_digit_def)

lemma numeric_char_not_whitespace: "numeric_char c \<Longrightarrow> \<not> js_whitespace c"
  by (auto simp: numeric_char_def is_digit_def js_whitespace_def)

lemma exponent_part_numeric:
  assumes "\<forall>c \<in> set r. numeric_char c"
  shows "exponent_part r = 0"
  using assms numeric_char_not_exponent by (cases r) (auto simp: exponent_part_def)

lemma str_decimal_finite:
  assumes num: "\<forall>c \<in> set u. numeric_char c" and len: "length u \<le> 308"
    and nn: "str_decimal neg u \<noteq> NaN"
  shows "is_finite (str_decimal neg u)"
proof -
  define ip where "ip = takeWhile is_digit u"
  define r1 where "r1 = dropWhile is_digit u"
  define fp where "fp = (case r1 of [] \<Rightarrow> [] | c # r \<Rightarrow> if c = CHR ''.'' then takeWhile is_digit r else [])"
  define r2 where "r2 = (case r1 of [] \<Rightarrow> [] | c # r \<Rightarrow> if c = CHR ''.'' then dropWhile is_digit r else r1)"
  have u: "u = ip @ r1" by (simp add: ip_def r1_def)
  have fp_len: "length fp \<le> length r1"
    by (cases r1) (auto simp: fp_def intro: le_SucI length_takeWhile_le)
  have fp_dig: "\<forall>c \<in> set fp. is_digit c"
    by (cases r1) (auto simp: fp_def dest: set_takeWhileD)
  have ip_dig: "\<forall>c \<in> set ip. is_digit c"
    by (auto simp: ip_def dest: set_takeWhileD)
  have "set r2 \<subseteq> set r1"
    by (cases r1) (auto simp: r2_def dest: set_dropWhileD)
  moreover have "set r1 \<subseteq> set u" using u by simp
  ultimately have "\<forall>c \<in> set r2. numeric_char c" using num by blast
  then have ex: "exponent_part r2 = 0" by (rule exponent_part_numeric)
  have "length (ip @ fp) \<le> 308" using u fp_len len by simp
  then have "(10::nat) ^ length (ip @ fp) \<le> 10 ^ 308"
    by (intro power_increasing) simp_all
  moreover have "digits_value (ip @ fp) < 10 ^ length (ip @ fp)"
    using ip_dig fp_dig by (intro digits_value_bound) auto
  ultimately have "digits_value (ip @ fp) < 10 ^ 308" by linarith
  then have no: "\<not> overflows (digits_value (ip @ fp)) (- int (length fp))"
    by (rule overflows_small)
  have "str_decimal neg u =
          (if ip = [] \<and> fp = [] then NaN
           else if overflows (digits_value (ip @ fp)) (exponent_part r2 - int (length fp))
                then Infinity neg
                else Finite neg (digits_value (ip @ fp)) (exponent_part r2 - int (length fp)))"
    unfolding str_decimal_def Let_def ip_def r1_def fp_def r2_def by simp
  with nn ex no show ?thesis by (auto simp: is_finite_def split: if_splits)
qed

lemma startsWith_hd: "startsWith u (p # ps) \<Longrightarrow> u \<noteq> [] \<and> hd u = p"
  by (cases u) auto

lemma parseFloat_short_numeric:
  assumes "short_numeric v" and nn: "parseFloat v \<noteq> NaN"
  shows "is_finite (parseFloat v)"
proof -
  from assms have num: "\<forall>c \<in> set v. numeric_char c" and len: "length v \<le> 308"
    by (auto simp: short_numeric_def list_all_iff)
  have t: "trimStart v = v"
    using num numeric_char_not_whitespace by (cases v) (auto simp: trimStart_def)
  define neg where "neg = (v \<noteq> [] \<and> hd v = CHR ''-'')"
  define u where "u = (if v \<noteq> [] \<and> (hd v = CHR ''-'' \<or> hd v = CHR ''+'') then tl v else v)"
  have unum: "\<forall>c \<in> set u. numeric_char c"
    using num by (cases v) (auto simp: u_def)
  have ulen: "length u \<le> 308" using len by (cases v) (auto simp: u_def)
  have "\<not> startsWith u ''Infinity''"
  proof
    assume "startsWith u ''Infinity''"
    then have "u \<noteq> [] \<and> hd u = CHR ''I''" by (simp add: startsWith_hd)
    then have "numeric_char (CHR ''I'')" using unum hd_in_set by metis
    then show False using numeric_char_not_exponent by blast
  qed
  then have eq: "parseFloat v = str_decimal neg u"
    by (simp add: parseFloat_def Let_def t neg_def u_def)
  with nn have "str_decimal neg u \<noteq> NaN" by simp
  with unum ulen have "is_finite (str_decimal neg u)" by (rule str_decimal_finite)
  with eq show ?thesis by simp
qed

lemma is_finite_not_NaN: "is_finite x \<Longrightarrow> x \<noteq> NaN"
  by (auto simp: is_finite_def)

lemma updateButtonState_disabled:
  "addButton_disabled (updateButtonState s) =
     (\<not> (parseFloat (number1_value s) \<noteq> NaN \<and> parseFloat (number2_value s) \<noteq> NaN \<and>
         trim (number1_value s) \<noteq> [] \<and> trim (number2_value s) \<noteq> []))"
  by (simp add: updateButtonState_def Let_def isNaN_def)

lemma updateButtonState_fields:
  "number1_value (updateButtonState s) = number1_value s"
  "number2_value (updateButtonState s) = number2_value s"
  by (simp_all add: updateButtonState_def Let_def)

lemma input_event_disabled:
  "addButton_disabled (input_event target raw s) =
     (\<not> (parseFloat (number1_value (input_event target raw s)) \<noteq> NaN \<and>
         parseFloat (number2_value (input_event target raw s)) \<noteq> NaN \<and>
         trim (number1_value (input_event target raw s)) \<noteq> [] \<and>
         trim (number2_value (input_event target raw s)) \<noteq> []))"
  unfolding input_event_def validateInput_def updateButtonState_fields
  by (rule updateButtonState_disabled)

lemma digits_value_one_zeros: "digits_value (CHR ''1'' # replicate n (CHR ''0'')) = 10 ^ n"
proof (induction n)
  case 0
  show ?case by (simp add: digits_value_def)
next
  case (Suc n)
  have "CHR ''1'' # replicate (Suc n) (CHR ''0'') = (CHR ''1'' # replicate n (CHR ''0'')) @ [CHR ''0'']"
    by (simp add: replicate_append_same)
  then show ?case using Suc by (simp only: digits_value_snoc) simp
qed

lemma huge_number_digits: "\<forall>c \<in> set huge_number. is_digit c"
  by (auto simp: huge_number_def is_digit_def)

lemma str_decimal_huge: "str_decimal False huge_number = Infinity False"
proof -
  have tw: "takeWhile is_digit huge_number = huge_number"
    using huge_number_digits by (simp add: takeWhile_eq_all_conv)
  have dw: "dropWhile is_digit huge_number = []"
    using huge_number_digits by (simp add: dropWhile_eq_Nil_conv)
  have ne: "huge_number \<noteq> []" by (simp add: huge_number_def)
  have dv: "digits_value huge_number = 10 ^ 309"
    unfolding huge_number_def by (rule digits_value_one_zeros)
  have ov: "overflows (10 ^ 309) 0"
    using above_threshold by (simp add: overflows_def)
  show ?thesis
    unfolding str_decimal_def Let_def tw dw using ne dv ov by (simp add: exponent_part_def)
qed

lemma parseFloat_huge: "parseFloat huge_number = Infinity False"
proof -
  have hd: "hd huge_number = CHR ''1''" and ne: "huge_number \<noteq> []"
    by (simp_all add: huge_number_def)
  have t: "trimStart huge_number = huge_number"
    unfolding trimStart_def huge_number_def by (simp add: js_whitespace_def)
  have "\<not> startsWith huge_number ''Infinity''"
    using startsWith_hd [of huge_number "CHR ''I''" "''nfinity''"] hd by auto
  then show ?thesis
    unfolding parseFloat_def Let_def t using hd ne str_decimal_huge by simp
qed

lemma sanitized_huge: "sanitized huge_number = huge_number"
proof -
  have num: "\<forall>c \<in> set huge_number. numeric_char c"
    using huge_number_digits by (simp add: numeric_char_def)
  then have f: "filter numeric_char huge_number = huge_number" by simp
  have "CHR ''.'' \<notin> set huge_number" by (auto simp: huge_number_def)
  then have "count_list huge_number (CHR ''.'') = 0" by simp
  with f show ?thesis by (simp add: sanitized_eq)
qed

text \<open>
  C3 (as amended). After an input event on either field, the Add button is enabled if and
  only if both field values parse to something other than \<open>NaN\<close> and neither is empty
  after trimming. A value that parses to \<open>\<plusminus>Infinity\<close> enables the button too. For values
  of at most 308 characters made of digits, points and minus signs, which is what
  sanitising leaves of a short text, this is the same as parsing to finite numbers.
\<close>

theorem add_button_enabled_iff:
  assumes "s' = input_event target raw s"
  shows "(\<not> addButton_disabled s' \<longleftrightarrow>
            parseFloat (number1_value s') \<noteq> NaN \<and> parseFloat (number2_value s') \<noteq> NaN \<and>
            trim (number1_value s') \<noteq> [] \<and> trim (number2_value s') \<noteq> []) \<and>
         (short_numeric (number1_value s') \<and> short_numeric (number2_value s') \<longrightarrow>
            (\<not> addButton_disabled s' \<longleftrightarrow>
               is_finite (parseFloat (number1_value s')) \<and>
               is_finite (parseFloat (number2_value s')) \<and>
               trim (number1_value s') \<noteq> [] \<and> trim (number2_value s') \<noteq> []))"
proof -
  have iff: "\<not> addButton_disabled s' \<longleftrightarrow>
               parseFloat (number1_value s') \<noteq> NaN \<and> parseFloat (number2_value s') \<noteq> NaN \<and>
               trim (number1_value s') \<noteq> [] \<and> trim (number2_value s') \<noteq> []"
    unfolding assms using input_event_disabled [of target raw s] by simp
  moreover have "\<not> addButton_disabled s' \<longleftrightarrow>
               is_finite (parseFloat (number1_value s')) \<and>
               is_finite (parseFloat (number2_value s')) \<and>
               trim (number1_value s') \<noteq> [] \<and> trim (number2_value s') \<noteq> []"
    if "short_numeric (number1_value s')" and "short_numeric (number2_value s')"
    using iff that parseFloat_short_numeric is_finite_not_NaN by blast
  ultimately show ?thesis by blast
qed

theorem add_button_enabled_iff_witness:
  "\<not> addButton_disabled (input_event Number1 ''12.5x'' (calc_empty\<lparr>number2_value := ''-3''\<rparr>)) \<and>
   number1_value (input_event Number1 ''12.5x'' (calc_empty\<lparr>number2_value := ''-3''\<rparr>)) = ''12.5'' \<and>
   short_numeric ''12.5'' \<and> short_numeric ''-3'' \<and>
   is_finite (parseFloat ''12.5'') \<and> is_finite (parseFloat ''-3'') \<and>
   addButton_disabled (input_event Number2 ''abc'' (calc_empty\<lparr>number1_value := ''7''\<rparr>))"
  using add_button_enabled_iff [OF refl, of Number1 "''12.5x''" "calc_empty\<lparr>number2_value := ''-3''\<rparr>"]
  by (simp add: input_event_def validateInput_def updateButtonState_def set_field_value_def
        field_value_def calc_empty_def sanitized_def numeric_char_def is_digit_def Let_def
        parseFloat_def str_decimal_def trimStart_def trim_def js_whitespace_def isNaN_def
        digits_value_def exponent_part_def overflows_def is_finite_def short_numeric_def)

theorem add_button_infinity_counterexample:
  "\<not> addButton_disabled (input_event Number1 huge_number (calc_empty\<lparr>number2_value := huge_number\<rparr>)) \<and>
   number1_value (input_event Number1 huge_number (calc_empty\<lparr>number2_value := huge_number\<rparr>)) = huge_number \<and>
   number2_value (input_event Number1 huge_number (calc_empty\<lparr>number2_value := huge_number\<rparr>)) = huge_number \<and>
   parseFloat huge_number = Infinity False \<and>
   \<not> is_finite (parseFloat huge_number)"
proof -
  have "trim huge_number \<noteq> []"
    using parseFloat_trim [of huge_number] by (simp add: parseFloat_huge)
  then show ?thesis
    by (simp add: input_event_def validateInput_def updateButtonState_def set_field_value_def
          field_value_def calc_empty_def sanitized_huge parseFloat_huge isNaN_def is_finite_def
          Let_def)
qed

section \<open>The calculator's request\<close>

lemma handleAddition_invalid:
  "isNaN (parseFloat (number1_value s)) \<or> isNaN (parseFloat (number2_value s)) \<Longrightarrow>
   handleAddition outcome s = showError_calc ''Please enter valid numbers'' s"
  by (auto simp: handleAddition_def Let_def)

text \<open>
  C9. The Enter key calls \<open>handleAddition\<close> whatever the state of the Add button. When
  either field does not parse as a number the handler shows "Please enter valid numbers"
  and returns: the log of requests is as before, and nothing else on the page changes.
\<close>

theorem enter_with_invalid_numbers:
  assumes "isNaN (parseFloat (number1_value s)) \<or> isNaN (parseFloat (number2_value s))"
  shows "handleKeyPress ''Enter'' outcome s = showError_calc ''Please enter valid numbers'' s \<and>
         handleAddition outcome s = showError_calc ''Please enter valid numbers'' s \<and>
         result_text (handleKeyPress ''Enter'' outcome s) = ''Please enter valid numbers'' \<and>
         result_class (handleKeyPress ''Enter'' outcome s) = ''result show error'' \<and>
         add_requests (handleKeyPress ''Enter'' outcome s) = add_requests s \<and>
         addButton_disabled (handleKeyPress ''Enter'' outcome s) = addButton_disabled s"
  using handleAddition_invalid [OF assms, of outcome]
  by (simp add: handleKeyPress_def showError_calc_def)

theorem enter_with_invalid_numbers_witness:
  "isNaN (parseFloat (number1_value (calc_empty\<lparr>number1_value := ''-'', number2_value := ''4''\<rparr>))) \<and>
   addButton_disabled (calc_empty\<lparr>number1_value := ''-'', number2_value := ''4''\<rparr>) \<and>
   result_text (handleKeyPress ''Enter'' (Response 200 (AddObject ''8''))
                  (calc_empty\<lparr>number1_value := ''-'', number2_value := ''4''\<rparr>))
     = ''Please enter valid numbers'' \<and>
   add_requests (handleKeyPress ''Enter'' (Response 200 (AddObject ''8''))
                  (calc_empty\<lparr>number1_value := ''-'', number2_value := ''4''\<rparr>)) = []"
proof -
  have nan: "isNaN (parseFloat (number1_value (calc_empty\<lparr>number1_value := ''-'', number2_value := ''4''\<rparr>)))"
    by (simp add: isNaN_def parseFloat_def str_decimal_def trimStart_def js_whitespace_def
          is_digit_def Let_def)
  then have "isNaN (parseFloat (number1_value (calc_empty\<lparr>number1_value := ''-'', number2_value := ''4''\<rparr>))) \<or>
             isNaN (parseFloat (number2_value (calc_empty\<lparr>number1_value := ''-'', number2_value := ''4''\<rparr>)))"
    by (rule disjI1)
  from enter_with_invalid_numbers [OF this, of "Response 200 (AddObject ''8'')"] nan
  show ?thesis by (simp add: calc_empty_def showError_calc_def)
qed

lemma handleAddition_try_fields:
  "handleAddition_try outcome s = Inr s' \<Longrightarrow>
     number1_value s' = number1_value s \<and> number2_value s' = number2_value s \<and>
     add_requests s' = add_requests s"
  by (auto simp: handleAddition_try_def showResult_def
           split: fetch_outcome.splits add_body.splits if_splits)

lemma handleAddition_settle_button:
  "addButton_text (handleAddition_settle outcome s) = ''Add'' \<and>
   (addButton_disabled (handleAddition_settle outcome s) \<longleftrightarrow>
      \<not> (parseFloat (number1_value s) \<noteq> NaN \<and> parseFloat (number2_value s) \<noteq> NaN \<and>
         trim (number1_value s) \<noteq> [] \<and> trim (number2_value s) \<noteq> []))"
proof (cases "handleAddition_try outcome s")
  case (Inl err)
  then show ?thesis
    by (simp add: handleAddition_settle_def Let_def showError_calc_def updateButtonState_def
          isNaN_def)
next
  case (Inr s')
  with handleAddition_try_fields [OF Inr] show ?thesis
    by (simp add: handleAddition_settle_def Let_def updateButtonState_def isNaN_def)
qed

lemma handleAddition_pending_fields:
  "number1_value (handleAddition_pending a b s) = number1_value s"
  "number2_value (handleAddition_pending a b s) = number2_value s"
  "addButton_disabled (handleAddition_pending a b s)"
  "addButton_text (handleAddition_pending a b s) = ''Calculating...''"
  "add_requests (handleAddition_pending a b s) = add_requests s @ [AddRequest a b]"
  by (simp_all add: handleAddition_pending_def Let_def)

lemma handleAddition_valid:
  assumes "\<not> isNaN (parseFloat (number1_value s))" and "\<not> isNaN (parseFloat (number2_value s))"
  shows "handleAddition outcome s =
           handleAddition_settle outcome
             (handleAddition_pending (parseFloat (number1_value s)) (parseFloat (number2_value s)) s)"
    and "\<not> addButton_disabled (handleAddition outcome s)"
    and "addButton_text (handleAddition outcome s) = ''Add''"
proof -
  let ?p = "handleAddition_pending (parseFloat (number1_value s)) (parseFloat (number2_value s)) s"
  show eq: "handleAddition outcome s = handleAddition_settle outcome ?p"
    using assms by (simp add: handleAddition_def Let_def)
  have "parseFloat (number1_value s) \<noteq> NaN" and "parseFloat (number2_value s) \<noteq> NaN"
    using assms by (simp_all add: isNaN_def)
  moreover from this have "trim (number1_value s) \<noteq> []" and "trim (number2_value s) \<noteq> []"
    by (simp_all add: parseFloat_trim)
  ultimately show "\<not> addButton_disabled (handleAddition outcome s)"
    unfolding eq using handleAddition_settle_button [of outcome ?p]
    by (simp add: handleAddition_pending_fields)
  show "addButton_text (handleAddition outcome s) = ''Add''"
    unfolding eq using handleAddition_settle_button [of outcome ?p] by simp
qed

lemma handleAddition_network_failure:
  "result_text (handleAddition_settle NetworkFailure s) =
     ''Failed to calculate. Please check if the server is running.''"
  by (simp add: handleAddition_settle_def handleAddition_try_def Let_def showError_calc_def
        updateButtonState_def)

section \<open>Selecting a file\<close>

lemma processFile_cases:
  "processFile f s =
     (if \<not> includes_str (file_type f) ''pdf'' then showError ''Please select a PDF file'' s
      else if file_size f > 10 * 1024 * 1024 then showError ''File size must be less than 10MB'' s
      else hideResult (hideError
             (s\<lparr>selectedFile := Some f, fileName_text := file_name f,
                fileSize_text := FormatFileSize (file_size f),
                uploadArea_display := ''none'', fileInfo_display := ''flex''\<rparr>)))"
  by (simp add: processFile_def maxSize_def)

lemma showError_fields:
  "selectedFile (showError m s) = selectedFile s"
  "parse_requests (showError m s) = parse_requests s"
  "error_display (showError m s) = ''block''"
  "errorMessage_text (showError m s) = m"
  "parseButton_disabled (showError m s) = parseButton_disabled s"
  "loading_display (showError m s) = loading_display s"
  by (simp_all add: showError_def)

lemma selectedFile_processFile:
  "selectedFile (processFile f s) =
     (if includes_str (file_type f) ''pdf'' \<and> file_size f \<le> 10 * 1024 * 1024 then Some f
      else selectedFile s)"
  by (simp add: processFile_cases showError_def hideResult_def hideError_def)

text \<open>
  C4 (as amended). A file whose type does not contain "pdf", or whose size is above
  10 \<times> 1024 \<times> 1024 bytes, is rejected with a visible message: the selected file stays
  what it was and no request is sent, from the picker and from a drop alike. The message
  names the size only when the type does contain "pdf"; the type is checked first, so an
  oversized file of another type gets the message about PDF.
\<close>

theorem processFile_rejects:
  assumes "\<not> includes_str (file_type f) ''pdf'' \<or> file_size f > 10 * 1024 * 1024"
  shows "processFile f s =
           showError (if \<not> includes_str (file_type f) ''pdf'' then ''Please select a PDF file''
                      else ''File size must be less than 10MB'') s \<and>
         error_display (processFile f s) = ''block'' \<and>
         selectedFile (processFile f s) = selectedFile s \<and>
         parse_requests (processFile f s) = parse_requests s \<and>
         handleFileSelect (Some f) s = processFile f s \<and>
         selectedFile (handleDrop (f # rest) s) = selectedFile s \<and>
         parse_requests (handleDrop (f # rest) s) = parse_requests s \<and>
         errorMessage_text (handleDrop (f # rest) s) = errorMessage_text (processFile f s)"
  using assms
  by (auto simp: processFile_cases showError_def handleFileSelect_def handleDrop_def Let_def)

theorem processFile_rejects_witness:
  "file_size big_pdf > 10 * 1024 * 1024 \<and>
   errorMessage_text (processFile big_pdf (ui_empty\<lparr>selectedFile := Some cv_pdf\<rparr>))
     = ''File size must be less than 10MB'' \<and>
   error_display (processFile big_pdf (ui_empty\<lparr>selectedFile := Some cv_pdf\<rparr>)) = ''block'' \<and>
   selectedFile (processFile big_pdf (ui_empty\<lparr>selectedFile := Some cv_pdf\<rparr>)) = Some cv_pdf \<and>
   parse_requests (processFile big_pdf (ui_empty\<lparr>selectedFile := Some cv_pdf\<rparr>)) = []"
proof -
  have big: "file_size big_pdf > 10 * 1024 * 1024" by (simp add: big_pdf_def)
  then have "\<not> includes_str (file_type big_pdf) ''pdf'' \<or> file_size big_pdf > 10 * 1024 * 1024"
    by (rule disjI2)
  from processFile_rejects [OF this, of "ui_empty\<lparr>selectedFile := Some cv_pdf\<rparr>" "[]"] big
  show ?thesis by (simp add: showError_def big_pdf_def ui_empty_def)
qed

theorem oversized_image_message_counterexample:
  "file_size big_png > 10 * 1024 * 1024 \<and>
   errorMessage_text (processFile big_png ui_empty) = ''Please select a PDF file'' \<and>
   errorMessage_text (processFile big_png ui_empty) \<noteq> ''File size must be less than 10MB''"
  by (simp add: processFile_cases showError_def big_png_def)

section \<open>The selected file stays a small PDF\<close>

lemma selectedFile_displayResumeData:
  "displayResumeData data s = Inr s' \<Longrightarrow>
     selectedFile s' = selectedFile s \<and> parse_requests s' = parse_requests s \<and>
     error_display s' = error_display s"
  by (auto simp: displayResumeData_def split: option.splits sum.splits)

lemma selectedFile_handleParse_try:
  "handleParse_try outcome s = Inr s' \<Longrightarrow> selectedFile s' = selectedFile s"
  by (auto simp: handleParse_try_def showError_def dest: selectedFile_displayResumeData
           split: fetch_outcome.splits parse_body.splits if_splits)

lemma selectedFile_handleParse_settle:
  "selectedFile (handleParse_settle outcome s) = selectedFile s"
  by (cases "handleParse_try outcome s")
     (simp_all add: handleParse_settle_def hideLoading_def showError_def
                    selectedFile_handleParse_try)

lemma selectedFile_handleParse_pending:
  "selectedFile (handleParse_pending f s) = selectedFile s"
  by (simp add: handleParse_pending_def Let_def showLoading_def hideError_def hideResult_def)

lemma selectedFile_handleParse:
  "selectedFile (handleParse outcome s) = selectedFile s"
  by (simp add: handleParse_def showError_def selectedFile_handleParse_settle
        selectedFile_handleParse_pending split: option.splits)

lemma file_ok_processFile:
  "file_ok (selectedFile s) \<Longrightarrow> file_ok (selectedFile (processFile f s))"
  by (simp add: selectedFile_processFile file_ok_def maxSize_def)

lemma file_ok_step:
  "file_ok (selectedFile s) \<Longrightarrow> file_ok (selectedFile (step ev s))"
proof (cases ev)
  case (FileSelect first)
  assume "file_ok (selectedFile s)"
  with FileSelect show ?thesis
    by (cases first) (simp_all add: handleFileSelect_def file_ok_processFile)
next
  case (Drop files)
  assume ok: "file_ok (selectedFile s)"
  then have "file_ok (selectedFile (s\<lparr>uploadArea_dragover := False\<rparr>))" by simp
  with Drop show ?thesis
    by (cases files) (simp_all add: handleDrop_def Let_def file_ok_processFile)
next
  case ParseClick
  assume "file_ok (selectedFile s)"
  with ParseClick show ?thesis
    by (cases "selectedFile s") (simp_all add: showError_def selectedFile_handleParse_pending)
next
  case (ParseSettled outcome)
  assume "file_ok (selectedFile s)"
  with ParseSettled show ?thesis by (simp add: selectedFile_handleParse_settle)
next
  case Reset
  then show ?thesis by (simp add: resetUpload_def hideResult_def hideError_def file_ok_def)
qed (simp_all add: handleDragOver_def handleDragLeave_def)

lemma file_ok_run:
  "file_ok (selectedFile s) \<Longrightarrow> file_ok (selectedFile (run evs s))"
  unfolding run_def
  by (induction evs arbitrary: s) (simp_all add: file_ok_step)

text \<open>
  C10. The selected file is always either none or a file whose type contains "pdf" and
  whose size is at most 10 \<times> 1024 \<times> 1024 bytes: the property holds when the script
  starts, and every event keeps it, also when other events come between a click on the
  parse button and its answer. \<open>processFile\<close> stores the file only when both checks
  pass, \<open>resetUpload\<close> stores none, and \<open>handleParse\<close> leaves the selection alone.
\<close>

theorem selected_file_invariant:
  "(file_ok (selectedFile s) \<longrightarrow> file_ok (selectedFile (run evs s))) \<and>
   (selectedFile s = None \<longrightarrow> file_ok (selectedFile (run evs s))) \<and>
   file_ok (selectedFile s) =
     (selectedFile s = None \<or>
      (\<exists>f. selectedFile s = Some f \<and> includes_str (file_type f) ''pdf'' \<and>
           file_size f \<le> 10 * 1024 * 1024)) \<and>
   selectedFile (processFile f s) =
     (if includes_str (file_type f) ''pdf'' \<and> file_size f \<le> 10 * 1024 * 1024 then Some f
      else selectedFile s) \<and>
   selectedFile (resetUpload s) = None \<and>
   selectedFile (handleParse outcome s) = selectedFile s"
proof -
  have "file_ok None" by (simp add: file_ok_def)
  then have "selectedFile s = None \<longrightarrow> file_ok (selectedFile (run evs s))"
    using file_ok_run [of s evs] by auto
  moreover have "file_ok (selectedFile s) =
     (selectedFile s = None \<or>
      (\<exists>f. selectedFile s = Some f \<and> includes_str (file_type f) ''pdf'' \<and>
           file_size f \<le> 10 * 1024 * 1024))"
    by (cases "selectedFile s") (simp_all add: file_ok_def maxSize_def)
  moreover have "selectedFile (resetUpload s) = None"
    by (simp add: resetUpload_def hideResult_def hideError_def)
  ultimately show ?thesis
    using file_ok_run [of s evs] selectedFile_processFile [of f s]
      selectedFile_handleParse [of outcome s]
    by blast
qed

theorem selected_file_invariant_witness:
  "selectedFile ui_empty = None \<and>
   selectedFile (run [Drop [big_png], FileSelect (Some cv_pdf), ParseClick, Drop [big_pdf],
                      ParseSettled NetworkFailure] ui_empty) = Some cv_pdf \<and>
   file_ok (selectedFile (run [Drop [big_png], FileSelect (Some cv_pdf), ParseClick, Drop [big_pdf],
                      ParseSettled NetworkFailure] ui_empty)) \<and>
   selectedFile (run [FileSelect (Some cv_pdf), Reset] ui_empty) = None"
  using selected_file_invariant
    [of ui_empty "[Drop [big_png], FileSelect (Some cv_pdf), ParseClick, Drop [big_pdf],
                      ParseSettled NetworkFailure]" cv_pdf NetworkFailure]
  by (simp add: run_def handleDrop_def handleFileSelect_def selectedFile_processFile
        selectedFile_handleParse_pending selectedFile_handleParse_settle Let_def
        big_png_def big_pdf_def cv_pdf_def ui_empty_def resetUpload_def hideResult_def
        hideError_def file_ok_def maxSize_def)

section \<open>The sections of the rendered resume\<close>

lemma concat_map_filter:
  "concat (map f (filter P xs)) = concat (map (\<lambda>x. if P x then f x else []) xs)"
  by (induction xs) auto

lemma sections_html_unfold:
  "sections_html d =
     (if category_nonempty d Personal then section_html d Personal else []) @
     (if category_nonempty d Summary then section_html d Summary else []) @
     (if category_nonempty d Education then section_html d Education else []) @
     (if category_nonempty d Work then section_html d Work else []) @
     (if category_nonempty d Skills then section_html d Skills else []) @
     (if category_nonempty d Projects then section_html d Projects else []) @
     (if category_nonempty d Certifications then section_html d Certifications else []) @
     (if category_nonempty d Languages then section_html d Languages else [])"
  unfolding sections_html_def category_order_def concat_map_filter by simp

lemma personal_block_section:
  "contact_info d \<noteq> None \<Longrightarrow>
   personal_block d = Inr (if category_nonempty d Personal then section_html d Personal else [])"
  by (auto simp: personal_block_def section_html_def entries_def)

lemma summary_block_section:
  "summary_block d = Inr (if category_nonempty d Summary then section_html d Summary else [])"
  by (simp add: summary_block_def section_html_def)

lemma education_block_section:
  "education d \<noteq> None \<Longrightarrow>
   education_block d = Inr (if category_nonempty d Education then section_html d Education else [])"
  by (auto simp: education_block_def section_html_def entries_def)

lemma work_block_section:
  "work_experience d \<noteq> None \<Longrightarrow>
   work_block d = Inr (if category_nonempty d Work then section_html d Work else [])"
  by (auto simp: work_block_def section_html_def entries_def)

lemma skills_block_section:
  "skills d \<noteq> None \<Longrightarrow>
   skills_block d = Inr (if category_nonempty d Skills then section_html d Skills else [])"
  by (auto simp: skills_block_def section_html_def entries_def)

lemma run_blocks_project_items:
  "list_all (\<lambda>project. project_technologies project \<noteq> None) ps \<Longrightarrow>
   run_blocks acc (map project_item ps) = Inr (acc @ concat (map project_item_text ps))"
proof (induction ps arbitrary: acc)
  case Nil
  show ?case by simp
next
  case (Cons p ps)
  then obtain ts where ts: "project_technologies p = Some ts" by auto
  then obtain h where h: "project_item p = Inr h" by (simp add: project_item_def)
  then have "project_item_text p = h" by (simp add: project_item_text_def)
  with Cons h show ?case by simp
qed

lemma run_blocks_project_items_fail:
  "\<not> list_all (\<lambda>project. project_technologies project \<noteq> None) ps \<Longrightarrow>
   run_blocks acc (map project_item ps) = Inl TypeError"
proof (induction ps arbitrary: acc)
  case Nil
  then show ?case by simp
next
  case (Cons p ps)
  show ?case
  proof (cases "project_technologies p")
    case None
    then show ?thesis by (simp add: project_item_def)
  next
    case (Some ts)
    then obtain h where "project_item p = Inr h" by (simp add: project_item_def)
    moreover from Some Cons.prems
    have "\<not> list_all (\<lambda>project. project_technologies project \<noteq> None) ps" by simp
    ultimately show ?thesis using Cons.IH by simp
  qed
qed

lemma projects_block_section:
  "projects d \<noteq> None \<Longrightarrow>
   list_all (\<lambda>project. project_technologies project \<noteq> None) (entries (projects d)) \<Longrightarrow>
   projects_block d = Inr (if category_nonempty d Projects then section_html d Projects else [])"
  by (auto simp: projects_block_def section_html_def entries_def run_blocks_project_items)

lemma projects_block_fail:
  "projects d = None \<or>
   \<not> list_all (\<lambda>project. project_technologies project \<noteq> None) (entries (projects d)) \<Longrightarrow>
   projects_block d = Inl TypeError"
  by (cases "projects d")
     (auto simp: projects_block_def entries_def run_blocks_project_items_fail)

lemma certifications_block_section:
  "certifications d \<noteq> None \<Longrightarrow>
   certifications_block d =
     Inr (if category_nonempty d Certifications then section_html d Certifications else [])"
  by (auto simp: certifications_block_def section_html_def entries_def)

lemma languages_block_section:
  "languages d \<noteq> None \<Longrightarrow>
   languages_block d = Inr (if category_nonempty d Languages then section_html d Languages else [])"
  by (auto simp: languages_block_def section_html_def entries_def)

lemma build_html_present:
  assumes "arrays_present d"
  shows "build_html d = Inr (sections_html d)"
proof -
  from assms have p:
    "contact_info d \<noteq> None" "education d \<noteq> None" "work_experience d \<noteq> None"
    "skills d \<noteq> None" "projects d \<noteq> None" "certifications d \<noteq> None" "languages d \<noteq> None"
    "list_all (\<lambda>project. project_technologies project \<noteq> None) (entries (projects d))"
    by (simp_all add: arrays_present_def)
  note blocks =
    personal_block_section [OF p(1)] summary_block_section [of d]
    education_block_section [OF p(2)] work_block_section [OF p(3)]
    skills_block_section [OF p(4)] projects_block_section [OF p(5) p(8)]
    certifications_block_section [OF p(6)] languages_block_section [OF p(7)]
  show ?thesis
    unfolding build_html_def sections_html_unfold
    by (simp only: blocks run_blocks.simps sum.case append_Nil append_assoc)
qed

lemma block_errors:
  "personal_block d \<noteq> Inl e \<or> e = TypeError"
  "education_block d \<noteq> Inl e \<or> e = TypeError"
  "work_block d \<noteq> Inl e \<or> e = TypeError"
  "skills_block d \<noteq> Inl e \<or> e = TypeError"
  "certifications_block d \<noteq> Inl e \<or> e = TypeError"
  "languages_block d \<noteq> Inl e \<or> e = TypeError"
  "summary_block d \<noteq> Inl e"
  by (auto simp: personal_block_def education_block_def work_block_def skills_block_def
        certifications_block_def languages_block_def summary_block_def split: option.splits)

lemma run_blocks_TypeError:
  "\<forall>b \<in> set bs. \<forall>e. b = Inl e \<longrightarrow> e = TypeError \<Longrightarrow> Inl TypeError \<in> set bs \<Longrightarrow>
   run_blocks acc bs = Inl TypeError"
  by (induction bs arbitrary: acc) (auto split: sum.splits)

lemma projects_block_error: "projects_block d = Inl e \<Longrightarrow> e = TypeError"
proof (cases "arrays_present d")
  case True
  assume "projects_block d = Inl e"
  with True show ?thesis by (simp add: projects_block_section arrays_present_def)
next
  case False
  assume a: "projects_block d = Inl e"
  show ?thesis
  proof (cases "projects d = None \<or>
      \<not> list_all (\<lambda>project. project_technologies project \<noteq> None) (entries (projects d))")
    case True
    with a projects_block_fail [OF True] show ?thesis by simp
  next
    case False
    with a show ?thesis by (simp add: projects_block_section)
  qed
qed

lemma build_html_absent:
  assumes "\<not> arrays_present d"
  shows "build_html d = Inl TypeError"
proof -
  let ?bs = "[personal_block d, summary_block d, education_block d, work_block d,
        skills_block d, projects_block d, certifications_block d, languages_block d]"
  have all: "\<forall>b \<in> set ?bs. \<forall>e. b = Inl e \<longrightarrow> e = TypeError"
    using block_errors [of d] projects_block_error [of d] by auto
  have "Inl TypeError \<in> set ?bs"
  proof -
    from assms consider "contact_info d = None" | "education d = None"
      | "work_experience d = None" | "skills d = None" | "certifications d = None"
      | "languages d = None"
      | "projects d = None \<or>
          \<not> list_all (\<lambda>project. project_technologies project \<noteq> None) (entries (projects d))"
      unfolding arrays_present_def by blast
    then show ?thesis
    proof cases
      case 1 then show ?thesis by (simp add: personal_block_def)
    next
      case 2 then show ?thesis by (simp add: education_block_def)
    next
      case 3 then show ?thesis by (simp add: work_block_def)
    next
      case 4 then show ?thesis by (simp add: skills_block_def)
    next
      case 5 then show ?thesis by (simp add: certifications_block_def)
    next
      case 6 then show ?thesis by (simp add: languages_block_def)
    next
      case 7 then show ?thesis by (simp add: projects_block_fail)
    qed
  qed
  with all show ?thesis
    unfolding build_html_def by (rule run_blocks_TypeError)
qed

lemma displayResumeData_present:
  "arrays_present d \<Longrightarrow>
   displayResumeData (Some d) s =
     Inr (s\<lparr>resumeData_innerHTML := sections_html d, resultSection_display := ''block''\<rparr>)"
  by (simp add: displayResumeData_def build_html_present)

lemma displayResumeData_absent:
  "\<not> arrays_present d \<Longrightarrow> displayResumeData (Some d) s = Inl TypeError"
  by (simp add: displayResumeData_def build_html_absent)

text \<open>
  C1 (as amended). For a payload in which every array the renderer reads is present, the
  markup is one labelled section (opening tag, title, body, closing tag) for each
  non-empty category, in the order personal information, summary, education, work
  experience, skills, projects, certifications, languages; a category whose name or
  summary is empty or missing, or whose array is empty, contributes nothing. When an array
  is missing the renderer throws a TypeError and writes nothing.
\<close>

theorem render_sections:
  "(arrays_present d \<longrightarrow>
      build_html d = Inr (sections_html d) \<and>
      displayResumeData (Some d) s =
        Inr (s\<lparr>resumeData_innerHTML := sections_html d, resultSection_display := ''block''\<rparr>)) \<and>
   (\<not> arrays_present d \<longrightarrow>
      build_html d = Inl TypeError \<and> displayResumeData (Some d) s = Inl TypeError) \<and>
   sections_html d =
     concat (map (section_html d)
       (filter (category_nonempty d)
          [Personal, Summary, Education, Work, Skills, Projects, Certifications, Languages])) \<and>
   section_html d c =
     section_open @ section_title (category_title c) @ category_body d c @ ''</div>''"
  using build_html_present [of d] build_html_absent [of d]
    displayResumeData_present [of d s] displayResumeData_absent [of d s]
  by (auto simp: sections_html_def category_order_def section_html_def)

theorem render_sections_witness:
  \<open>arrays_present acme_payload \<and>
   \<not> category_nonempty acme_payload Education \<and>
   build_html acme_payload =
     Inr (''<div class="data-section"><div class="section-title">Work Experience</div>'' @
          ''<div class="data-item"><div><span class="data-label">Company:</span> Acme</div>'' @
          ''<div><span class="data-label">Position:</span> Eng</div></div></div>'')\<close>
proof -
  have a: "arrays_present acme_payload"
    by (simp add: arrays_present_def acme_payload_def no_entries_def entries_def)
  with render_sections [of acme_payload ui_empty Work]
  have "build_html acme_payload = Inr (sections_html acme_payload)" by blast
  then show ?thesis
    using a
    by (simp add: sections_html_unfold section_html_def acme_payload_def no_entries_def
          entries_def work_item_def labelled_line_def dates_line_def section_open_def
          section_title_def item_open_def)
qed

theorem missing_array_counterexample:
  "category_nonempty missing_education_payload Personal \<and>
   education missing_education_payload = None \<and>
   build_html missing_education_payload = Inl TypeError \<and>
   displayResumeData (Some missing_education_payload) ui_empty = Inl TypeError"
proof -
  have "\<not> arrays_present missing_education_payload"
    by (simp add: arrays_present_def missing_education_payload_def)
  then show ?thesis
    by (simp add: build_html_absent displayResumeData_absent)
       (simp add: missing_education_payload_def)
qed

section \<open>Date ranges\<close>

lemma dates_line_eq: "dates_line sd ed = date_range_line sd ed"
  by (simp add: dates_line_def date_range_line_def Let_def)

text \<open>
  C7. In an education entry and in a work entry the date line holds the start and the end
  joined with " - " when both are there, the one that is there when the other is absent
  (missing, null or empty), and there is no date line when both are absent.
\<close>

theorem date_line_of_entries:
  "dates_line sd ed = date_range_line sd ed \<and>
   education_item edu =
     item_open @
     labelled_line ''Institution'' (edu_institution edu) @
     labelled_line ''Degree'' (edu_degree edu) @
     labelled_line ''Field'' (edu_field_of_study edu) @
     date_range_line (edu_start_date edu) (edu_end_date edu) @
     ''</div>'' \<and>
   work_item work =
     item_open @
     labelled_line ''Company'' (work_company work) @
     labelled_line ''Position'' (work_position work) @
     date_range_line (work_start_date work) (work_end_date work) @
     labelled_line ''Description'' (work_description work) @
     ''</div>''"
  by (simp add: dates_line_eq education_item_def work_item_def)

theorem date_line_of_entries_witness:
  \<open>dates_line (Str ''2019'') (Str ''2021'') = ''<div><span class="data-label">Dates:</span> 2019 - 2021</div>'' \<and>
   dates_line (Str ''2019'') Undefined = ''<div><span class="data-label">Dates:</span> 2019</div>'' \<and>
   dates_line Null (Str ''2021'') = ''<div><span class="data-label">Dates:</span> 2021</div>'' \<and>
   dates_line (Str '''') Null = [] \<and>
   work_item \<lparr>work_company = Str ''Acme'', work_position = Undefined, work_start_date = Str ''2019'',
              work_end_date = Null, work_description = Undefined\<rparr> =
     ''<div class="data-item"><div><span class="data-label">Company:</span> Acme</div>'' @
     ''<div><span class="data-label">Dates:</span> 2019</div></div>''\<close>
  using date_line_of_entries [of "Str ''2019''" "Str ''2021''"]
    date_line_of_entries [of "Str ''2019''" Undefined]
    date_line_of_entries [of Null "Str ''2021''"]
    date_line_of_entries [of "Str ''''" Null _
      "\<lparr>work_company = Str ''Acme'', work_position = Undefined, work_start_date = Str ''2019'',
              work_end_date = Null, work_description = Undefined\<rparr>"]
  by (simp add: date_range_line_def labelled_line_def item_open_def)

section \<open>Rendering twice\<close>

text \<open>
  C8. The renderer reads the payload and writes two properties of the page, the markup and
  the visibility of the result section; the payload is a value of the model and is not
  part of what the function returns. What it writes depends on the payload alone: it
  replaces whatever markup the page held, rendering again changes nothing, and a render
  that throws does so from every page state.
\<close>

theorem render_replaces_and_repeats:
  "(displayResumeData data s = Inr s' \<longrightarrow>
      displayResumeData data s' = Inr s' \<and>
      (\<forall>t. \<exists>t'. displayResumeData data t = Inr t' \<and>
               resumeData_innerHTML t' = resumeData_innerHTML s' \<and>
               resultSection_display t' = resultSection_display s')) \<and>
   (displayResumeData data s = Inl err \<longrightarrow> (\<forall>t. displayResumeData data t = Inl err)) \<and>
   (displayResumeData (Some d) (s\<lparr>resumeData_innerHTML := old\<rparr>) = Inr s' \<longrightarrow>
      build_html d = Inr (resumeData_innerHTML s'))"
  by (auto simp: displayResumeData_def split: option.splits sum.splits)

theorem render_replaces_and_repeats_witness:
  \<open>displayResumeData (Some acme_payload) (ui_empty\<lparr>resumeData_innerHTML := ''<p>old</p>''\<rparr>) =
     Inr (ui_empty\<lparr>resumeData_innerHTML := sections_html acme_payload,
                   resultSection_display := ''block''\<rparr>) \<and>
   displayResumeData (Some acme_payload)
     (ui_empty\<lparr>resumeData_innerHTML := sections_html acme_payload, resultSection_display := ''block''\<rparr>) =
     Inr (ui_empty\<lparr>resumeData_innerHTML := sections_html acme_payload,
                   resultSection_display := ''block''\<rparr>)\<close>
proof -
  have a: "arrays_present acme_payload"
    by (simp add: arrays_present_def acme_payload_def no_entries_def entries_def)
  have first: \<open>displayResumeData (Some acme_payload) (ui_empty\<lparr>resumeData_innerHTML := ''<p>old</p>''\<rparr>) =
     Inr (ui_empty\<lparr>resumeData_innerHTML := sections_html acme_payload,
                   resultSection_display := ''block''\<rparr>)\<close>
    by (simp add: displayResumeData_present [OF a])
  with render_replaces_and_repeats
    [of "Some acme_payload" \<open>ui_empty\<lparr>resumeData_innerHTML := ''<p>old</p>''\<rparr>\<close>
        "ui_empty\<lparr>resumeData_innerHTML := sections_html acme_payload,
                   resultSection_display := ''block''\<rparr>"]
  show ?thesis by blast
qed

section \<open>The parse request and its answer\<close>

lemma handleParse_pending_fields:
  "parseButton_disabled (handleParse_pending f s)"
  "loading_display (handleParse_pending f s) = ''block''"
  "error_display (handleParse_pending f s) = ''none''"
  "parse_requests (handleParse_pending f s) = parse_requests s @ [ParseRequest f]"
  by (simp_all add: handleParse_pending_def Let_def showLoading_def hideError_def hideResult_def)

lemma handleParse_settle_released:
  "\<not> parseButton_disabled (handleParse_settle outcome s)"
  "loading_display (handleParse_settle outcome s) = ''none''"
  by (simp_all add: handleParse_settle_def hideLoading_def)

lemma handleParse_selected:
  "selectedFile s = Some f \<Longrightarrow>
   handleParse outcome s = handleParse_settle outcome (handleParse_pending f s)"
  by (simp add: handleParse_def)

lemma handleParse_settle_cases:
  "handleParse_settle NetworkFailure s =
     hideLoading (showError ''Failed to parse resume. Please check if the server is running.'' s)"
  "\<not> response_ok status \<Longrightarrow>
   handleParse_settle (Response status body) s =
     hideLoading (showError ''Failed to parse resume. Please check if the server is running.'' s)"
  "response_ok status \<Longrightarrow>
   handleParse_settle (Response status ParseMalformed) s =
     hideLoading (showError ''Failed to parse resume. Please check if the server is running.'' s)"
  "response_ok status \<Longrightarrow>
   handleParse_settle (Response status ParseNull) s =
     hideLoading (showError ''Failed to parse resume. Please check if the server is running.'' s)"
  "response_ok status \<Longrightarrow>
   handleParse_settle (Response status (ParseObject False message data)) s =
     hideLoading (showError (if truthy message then to_text message
                             else ''Failed to parse resume'') s)"
  "response_ok status \<Longrightarrow> arrays_present d \<Longrightarrow>
   handleParse_settle (Response status (ParseObject True message (Some d))) s =
     hideLoading (s\<lparr>resumeData_innerHTML := sections_html d, resultSection_display := ''block''\<rparr>)"
  "response_ok status \<Longrightarrow> \<not> arrays_present d \<Longrightarrow>
   handleParse_settle (Response status (ParseObject True message (Some d))) s =
     hideLoading (showError ''Failed to parse resume. Please check if the server is running.'' s)"
  "response_ok status \<Longrightarrow>
   handleParse_settle (Response status (ParseObject True message None)) s =
     hideLoading (showError ''Failed to parse resume. Please check if the server is running.'' s)"
  by (simp_all add: handleParse_settle_def handleParse_try_def displayResumeData_present
        displayResumeData_absent)
     (simp add: displayResumeData_def)

text \<open>
  C6 (as amended). With a file selected, for every answer to the parse request: a status
  outside 200..299 gives the generic failure message; a 2xx answer with \<open>success\<close> false
  shows the answer's \<open>message\<close> as it is when that is a non-empty string and "Failed to
  parse resume" otherwise; a 2xx answer with \<open>success\<close> true and a payload whose arrays are
  all present is rendered and no error is shown. A 2xx answer with \<open>success\<close> true whose
  payload is missing, or lacks an array, makes the renderer throw, and the generic failure
  message is shown.
\<close>

theorem parse_response_handling:
  assumes "selectedFile s = Some f"
  shows
    "(\<not> response_ok status \<longrightarrow>
        handleParse (Response status body) s =
          hideLoading (showError ''Failed to parse resume. Please check if the server is running.''
                         (handleParse_pending f s))) \<and>
     (response_ok status \<longrightarrow>
        handleParse (Response status (ParseObject False message data)) s =
          hideLoading (showError (if truthy message then to_text message else ''Failed to parse resume'')
                         (handleParse_pending f s))) \<and>
     (truthy message \<longrightarrow> message = Str (to_text message)) \<and>
     (response_ok status \<and> arrays_present d \<longrightarrow>
        handleParse (Response status (ParseObject True message (Some d))) s =
          hideLoading ((handleParse_pending f s)
                         \<lparr>resumeData_innerHTML := sections_html d, resultSection_display := ''block''\<rparr>) \<and>
        error_display (handleParse (Response status (ParseObject True message (Some d))) s) = ''none'') \<and>
     (response_ok status \<and> (data = None \<or> (\<exists>d'. data = Some d' \<and> \<not> arrays_present d')) \<longrightarrow>
        handleParse (Response status (ParseObject True message data)) s =
          hideLoading (showError ''Failed to parse resume. Please check if the server is running.''
                         (handleParse_pending f s)))"
proof -
  have "truthy message \<longrightarrow> message = Str (to_text message)"
    by (cases message) simp_all
  moreover have "error_display (hideLoading ((handleParse_pending f s)
                  \<lparr>resumeData_innerHTML := sections_html d, resultSection_display := ''block''\<rparr>)) = ''none''"
    by (simp add: hideLoading_def handleParse_pending_fields)
  ultimately show ?thesis
    unfolding handleParse_selected [OF assms]
    by (auto simp: handleParse_settle_cases)
qed

theorem parse_response_handling_witness:
  "selectedFile (ui_empty\<lparr>selectedFile := Some cv_pdf\<rparr>) = Some cv_pdf \<and>
   errorMessage_text (handleParse (Response 500 ParseMalformed) (ui_empty\<lparr>selectedFile := Some cv_pdf\<rparr>))
     = ''Failed to parse resume. Please check if the server is running.'' \<and>
   errorMessage_text (handleParse (Response 200 (ParseObject False (Str ''Not a resume'') None))
                        (ui_empty\<lparr>selectedFile := Some cv_pdf\<rparr>)) = ''Not a resume'' \<and>
   errorMessage_text (handleParse (Response 200 (ParseObject False Undefined None))
                        (ui_empty\<lparr>selectedFile := Some cv_pdf\<rparr>)) = ''Failed to parse resume'' \<and>
   resumeData_innerHTML (handleParse (Response 200 (ParseObject True Undefined (Some acme_payload)))
                        (ui_empty\<lparr>selectedFile := Some cv_pdf\<rparr>)) = sections_html acme_payload \<and>
   error_display (handleParse (Response 200 (ParseObject True Undefined (Some acme_payload)))
                        (ui_empty\<lparr>selectedFile := Some cv_pdf\<rparr>)) = ''none''"
proof -
  let ?s = "ui_empty\<lparr>selectedFile := Some cv_pdf\<rparr>"
  have sel: "selectedFile ?s = Some cv_pdf" by simp
  have a: "arrays_present acme_payload"
    by (simp add: arrays_present_def acme_payload_def no_entries_def entries_def)
  have ok: "response_ok 200" "\<not> response_ok 500" by (simp_all add: response_ok_def)
  from parse_response_handling [OF sel, of 500 ParseMalformed "Str ''Not a resume''" None acme_payload]
    parse_response_handling [OF sel, of 200 ParseMalformed "Str ''Not a resume''" None acme_payload]
    parse_response_handling [OF sel, of 200 ParseMalformed Undefined None acme_payload]
    a ok
  show ?thesis
    by (simp add: hideLoading_def showError_def handleParse_pending_fields)
qed

theorem success_without_payload_counterexample:
  "response_ok 200 \<and>
   error_display (handleParse (Response 200 (ParseObject True Undefined None))
                    (ui_empty\<lparr>selectedFile := Some cv_pdf\<rparr>)) = ''block'' \<and>
   errorMessage_text (handleParse (Response 200 (ParseObject True Undefined None))
                    (ui_empty\<lparr>selectedFile := Some cv_pdf\<rparr>))
     = ''Failed to parse resume. Please check if the server is running.'' \<and>
   resultSection_display (handleParse (Response 200 (ParseObject True Undefined None))
                    (ui_empty\<lparr>selectedFile := Some cv_pdf\<rparr>)) = ''none''"
proof -
  have ok: "response_ok 200" by (simp add: response_ok_def)
  show ?thesis
    using ok
    by (simp add: handleParse_def handleParse_settle_cases hideLoading_def showError_def
          handleParse_pending_def showLoading_def hideError_def hideResult_def Let_def)
qed

section \<open>Busy state\<close>

text \<open>
  C5. Each handler that sends a request first makes its control busy (button disabled,
  loading indicator shown or label changed) and only then hands the request to
  \<^verbatim>\<open>fetch\<close>; whatever the outcome (no answer from the network, a status outside
  200..299, a body that is not JSON or is null, a reported failure, a success, a renderer
  that throws) the control is interactive again afterwards. For the calculator the state
  of the button after the request is the one its fields call for, which is enabled when
  the fields are those the request was made from.
\<close>

theorem busy_state_released:
  "(selectedFile s = Some f \<longrightarrow>
      parseButton_disabled (handleParse_pending f s) \<and>
      loading_display (handleParse_pending f s) = ''block'' \<and>
      parse_requests (handleParse_pending f s) = parse_requests s @ [ParseRequest f] \<and>
      handleParse outcome s = handleParse_settle outcome (handleParse_pending f s) \<and>
      \<not> parseButton_disabled (handleParse outcome s) \<and>
      loading_display (handleParse outcome s) = ''none'') \<and>
   \<not> parseButton_disabled (handleParse_settle outcome s) \<and>
   loading_display (handleParse_settle outcome s) = ''none'' \<and>
   errorMessage_text (handleParse_settle NetworkFailure s) =
     ''Failed to parse resume. Please check if the server is running.'' \<and>
   (\<not> isNaN (parseFloat (number1_value c)) \<and> \<not> isNaN (parseFloat (number2_value c)) \<longrightarrow>
      addButton_disabled
        (handleAddition_pending (parseFloat (number1_value c)) (parseFloat (number2_value c)) c) \<and>
      addButton_text
        (handleAddition_pending (parseFloat (number1_value c)) (parseFloat (number2_value c)) c)
        = ''Calculating...'' \<and>
      add_requests
        (handleAddition_pending (parseFloat (number1_value c)) (parseFloat (number2_value c)) c)
        = add_requests c @ [AddRequest (parseFloat (number1_value c)) (parseFloat (number2_value c))] \<and>
      handleAddition answer c =
        handleAddition_settle answer
          (handleAddition_pending (parseFloat (number1_value c)) (parseFloat (number2_value c)) c) \<and>
      \<not> addButton_disabled (handleAddition answer c) \<and>
      addButton_text (handleAddition answer c) = ''Add'') \<and>
   addButton_text (handleAddition_settle answer c) = ''Add'' \<and>
   (addButton_disabled (handleAddition_settle answer c) \<longleftrightarrow>
      \<not> (parseFloat (number1_value c) \<noteq> NaN \<and> parseFloat (number2_value c) \<noteq> NaN \<and>
         trim (number1_value c) \<noteq> [] \<and> trim (number2_value c) \<noteq> [])) \<and>
   result_text (handleAddition_settle NetworkFailure c) =
     ''Failed to calculate. Please check if the server is running.''"
proof -
  have parse: "selectedFile s = Some f \<longrightarrow>
      handleParse outcome s = handleParse_settle outcome (handleParse_pending f s) \<and>
      \<not> parseButton_disabled (handleParse outcome s) \<and>
      loading_display (handleParse outcome s) = ''none''"
    by (simp add: handleParse_selected handleParse_settle_released)
  have msg: "errorMessage_text (handleParse_settle NetworkFailure s) =
     ''Failed to parse resume. Please check if the server is running.''"
    by (simp add: handleParse_settle_cases hideLoading_def showError_def)
  have add: "\<not> isNaN (parseFloat (number1_value c)) \<and> \<not> isNaN (parseFloat (number2_value c)) \<longrightarrow>
      handleAddition answer c =
        handleAddition_settle answer
          (handleAddition_pending (parseFloat (number1_value c)) (parseFloat (number2_value c)) c) \<and>
      \<not> addButton_disabled (handleAddition answer c) \<and>
      addButton_text (handleAddition answer c) = ''Add''"
    using handleAddition_valid [of c answer] by blast
  show ?thesis
    using parse msg add handleParse_pending_fields [of f s]
      handleParse_settle_released [of outcome s]
      handleAddition_pending_fields
        [of "parseFloat (number1_value c)" "parseFloat (number2_value c)" c]
      handleAddition_settle_button [of answer c] handleAddition_network_failure [of c]
    by blast
qed

theorem busy_state_released_witness:
  "selectedFile (ui_empty\<lparr>selectedFile := Some cv_pdf\<rparr>) = Some cv_pdf \<and>
   parseButton_disabled (handleParse_pending cv_pdf (ui_empty\<lparr>selectedFile := Some cv_pdf\<rparr>)) \<and>
   \<not> parseButton_disabled (handleParse NetworkFailure (ui_empty\<lparr>selectedFile := Some cv_pdf\<rparr>)) \<and>
   loading_display (handleParse NetworkFailure (ui_empty\<lparr>selectedFile := Some cv_pdf\<rparr>)) = ''none'' \<and>
   \<not> isNaN (parseFloat (number1_value (calc_empty\<lparr>number1_value := ''5'', number2_value := ''3''\<rparr>))) \<and>
   \<not> isNaN (parseFloat (number2_value (calc_empty\<lparr>number1_value := ''5'', number2_value := ''3''\<rparr>))) \<and>
   \<not> addButton_disabled (handleAddition NetworkFailure
        (calc_empty\<lparr>number1_value := ''5'', number2_value := ''3''\<rparr>)) \<and>
   addButton_text (handleAddition NetworkFailure
        (calc_empty\<lparr>number1_value := ''5'', number2_value := ''3''\<rparr>)) = ''Add'' \<and>
   result_text (handleAddition (Response 200 (AddObject ''8''))
        (calc_empty\<lparr>number1_value := ''5'', number2_value := ''3''\<rparr>)) = ''Result: 8''"
proof -
  let ?s = "ui_empty\<lparr>selectedFile := Some cv_pdf\<rparr>"
  let ?c = "calc_empty\<lparr>number1_value := ''5'', number2_value := ''3''\<rparr>"
  have sel: "selectedFile ?s = Some cv_pdf" by simp
  have n1: "parseFloat ''5'' = Finite False 5 0" and n2: "parseFloat ''3'' = Finite False 3 0"
    by (simp_all add: parseFloat_def str_decimal_def trimStart_def js_whitespace_def is_digit_def
          digits_value_def exponent_part_def overflows_def Let_def)
  have nn: "\<not> isNaN (parseFloat (number1_value ?c))" "\<not> isNaN (parseFloat (number2_value ?c))"
    by (simp_all add: n1 n2 isNaN_def)
  have res: "result_text (handleAddition (Response 200 (AddObject ''8'')) ?c) = ''Result: 8''"
    by (simp add: handleAddition_def handleAddition_settle_def handleAddition_try_def
          handleAddition_pending_def showResult_def updateButtonState_def response_ok_def
          n1 n2 isNaN_def Let_def)
  from busy_state_released [of ?s cv_pdf NetworkFailure ?c NetworkFailure] sel nn res
  show ?thesis by blast
qed

end
